theory Spec2Isabelle
  imports Main
begin

section \<open>Values and errors of the build-description interpreter\<close>

text \<open>
  The interpreter evaluates a build description to native Python values: strings, integers,
  booleans, lists of values, files \<open>File(is_built, subdir, fname)\<close>, \<open>None\<close>, and other
  objects (interpreter objects), which are told apart by identity only. Every
  exception class the modelled code raises is a constructor of \<open>error\<close> carrying the
  message; \<open>InvalidCode\<close> and \<open>InvalidArguments\<close> are subclasses of
  \<open>InterpreterException\<close> in the source.
\<close>

datatype val =
    VStr string
  | VInt int
  | VBool bool
  | VList "val list"
  | VFile bool string string
  | VNone
  | VObj nat

datatype error =
    InterpreterException string
  | InvalidCode string
  | InvalidArguments string
  | MesonException string
  | RuntimeError string
  | KeyError string
  | TypeError string
  | OtherError string


fun is_str :: "val \<Rightarrow> bool" where
  "is_str (VStr s) = True"
| "is_str v = False"


text \<open>Decimal rendering of integers, as \<open>str(n)\<close> and the \<open>%d\<close> format produce it.\<close>

fun str_nat :: "nat \<Rightarrow> string" where
  "str_nat n = (if n < 10 then [''0123456789'' ! n]
                else str_nat (n div 10) @ [''0123456789'' ! (n mod 10)])"

declare str_nat.simps [simp del]

definition str_int :: "int \<Rightarrow> string" where
  "str_int i = (if i < 0 then CHR ''-'' # str_nat (nat (- i)) else str_nat (nat i))"

section \<open>Indexing\<close>




section \<open>Arithmetic\<close>






section \<open>Configuration files: \<open>#mesondefine\<close>\<close>

text \<open>
  \<open>str.isspace\<close> for the code points below 256, and \<open>str.split()\<close> without
  arguments: runs of whitespace separate the tokens, leading and trailing whitespace
  gives no empty token. \<open>split_acc\<close> carries the current token reversed.
\<close>

definition isspace :: "char \<Rightarrow> bool" where
  "isspace c = (of_char c \<in> {9, 10, 11, 12, 13, 28, 29, 30, 31, 32, 133, 160 :: nat})"

fun split_acc :: "string \<Rightarrow> string \<Rightarrow> string list" where
  "split_acc cur [] = (if cur = [] then [] else [rev cur])"
| "split_acc cur (c # cs) =
     (if isspace c then (if cur = [] then split_acc [] cs else rev cur # split_acc [] cs)
      else split_acc (c # cur) cs)"

definition py_split :: "string \<Rightarrow> string list" where
  "py_split s = split_acc [] s"

definition py_strip :: "string \<Rightarrow> string" where
  "py_strip s = rev (dropWhile isspace (rev (dropWhile isspace s)))"

definition startswith :: "string \<Rightarrow> string \<Rightarrow> bool" where
  "startswith s p = (take (length p) s = p)"

definition nl :: string where
  "nl = [CHR 0x0A]"

definition dq :: string where
  "dq = [CHR 0x22]"

text \<open>
  The configuration data is the \<open>values\<close> dictionary of \<open>build.ConfigurationData\<close>;
  its \<open>get\<close> raises \<open>KeyError\<close> for a missing name. The token-count exception is built
  from two arguments, the format and the stripped line; \<open>MesonException\<close> here carries
  the format followed by that line.
\<close>

type_synonym confdata = "string \<rightharpoonup> val"

definition do_mesondefine :: "string \<Rightarrow> confdata \<Rightarrow> error + string" where
  "do_mesondefine line confdata =
     (let arr = py_split line in
      if length arr \<noteq> 2
      then Inl (MesonException (''#mesondefine does not contain exactly two tokens: %s'' @ py_strip line))
      else
        (let varname = arr ! 1 in
         case confdata varname of
           None \<Rightarrow> Inr (''/* undef '' @ varname @ '' */'' @ nl)
         | Some v \<Rightarrow>
             (case v of
                VBool b \<Rightarrow>
                  if b then Inr (''#define '' @ varname @ nl)
                  else Inr (''#undef '' @ varname @ nl)
              | VInt n \<Rightarrow> Inr (''#define '' @ varname @ '' '' @ str_int n @ nl)
              | VStr s \<Rightarrow> Inr (''#define '' @ varname @ '' '' @ s @ nl)
              | _ \<Rightarrow> Inl (MesonException (''#mesondefine argument '' @ dq @ varname @ dq
                                           @ '' is of unknown type.'')))))"

text \<open>
  One line of \<open>do_conf_file\<close>: a line that starts with \<open>#mesondefine\<close> goes to
  \<open>do_mesondefine\<close>, any other line to \<open>do_replacement\<close> (the regular-expression
  substitution, passed in as \<open>repl\<close>). The whole file is transformed line by line and
  the first exception ends it.
\<close>

definition do_conf_line ::
  "(string \<Rightarrow> confdata \<Rightarrow> error + string) \<Rightarrow> string \<Rightarrow> confdata \<Rightarrow> error + string" where
  "do_conf_line repl line confdata =
     (if startswith line ''#mesondefine'' then do_mesondefine line confdata
      else repl line confdata)"

fun do_conf_lines ::
  "(string \<Rightarrow> confdata \<Rightarrow> error + string) \<Rightarrow> string list \<Rightarrow> confdata \<Rightarrow> error + string list" where
  "do_conf_lines repl [] confdata = Inr []"
| "do_conf_lines repl (line # rest) confdata =
     (case do_conf_line repl line confdata of
        Inl e \<Rightarrow> Inl e
      | Inr out \<Rightarrow>
          (case do_conf_lines repl rest confdata of
             Inl e \<Rightarrow> Inl e
           | Inr outs \<Rightarrow> Inr (out # outs)))"


section \<open>Option keys\<close>
















section \<open>Helpers from the Python library\<close>

text \<open>
  \<open>'%s' % v\<close> for a script value. The rendering of strings, integers and booleans is
  Python's; a list, a file or another object is rendered by a fixed text, since its
  Python text depends on the class and the address of the object.
\<close>

fun py_str :: "val \<Rightarrow> string" where
  "py_str (VStr s) = s"
| "py_str (VInt i) = str_int i"
| "py_str (VBool b) = (if b then ''True'' else ''False'')"
| "py_str (VList xs) = ''<list>''"
| "py_str (VFile b d f) = ''<File>''"
| "py_str VNone = ''None''"
| "py_str (VObj n) = ''<object>''"

text \<open>Truth value of a script value, as \<open>if val:\<close> tests it.\<close>

fun py_truthy :: "val \<Rightarrow> bool" where
  "py_truthy (VStr s) = (s \<noteq> [])"
| "py_truthy (VInt i) = (i \<noteq> 0)"
| "py_truthy (VBool b) = b"
| "py_truthy (VList xs) = (xs \<noteq> [])"
| "py_truthy (VFile b d f) = True"
| "py_truthy VNone = False"
| "py_truthy (VObj n) = True"

text \<open>\<open>sep.join(parts)\<close>.\<close>

fun join :: "string \<Rightarrow> string list \<Rightarrow> string" where
  "join sep [] = []"
| "join sep [x] = x"
| "join sep (x # y # ys) = x @ sep @ join sep (y # ys)"

text \<open>\<open>str.lower()\<close> for the code points below 256.\<close>

definition lower_char :: "char \<Rightarrow> char" where
  "lower_char c =
     (let n = (of_char c :: nat) in
      if (65 \<le> n \<and> n \<le> 90) \<or> (192 \<le> n \<and> n \<le> 222 \<and> n \<noteq> 215) then char_of (n + 32) else c)"

definition py_lower :: "string \<Rightarrow> string" where
  "py_lower s = map lower_char s"

text \<open>
  \<open>os.path.split\<close> on a POSIX path: the tail is what follows the last slash, the head
  what precedes it, without its trailing slashes unless it consists of slashes only.
\<close>

definition posix_split :: "string \<Rightarrow> string \<times> string" where
  "posix_split p =
     (let tail = rev (takeWhile (\<lambda>c. c \<noteq> CHR ''/'') (rev p));
          head = take (length p - length tail) p
      in if head \<noteq> [] \<and> (\<exists>c \<in> set head. c \<noteq> CHR ''/'')
         then (rev (dropWhile (\<lambda>c. c = CHR ''/'') (rev head)), tail)
         else (head, tail))"

text \<open>\<open>os.path.join\<close> of two POSIX path components.\<close>

definition path_join :: "string \<Rightarrow> string \<Rightarrow> string" where
  "path_join a b =
     (if b \<noteq> [] \<and> hd b = CHR ''/'' then b
      else if a = [] \<or> last a = CHR ''/'' then a @ b
      else a @ ''/'' @ b)"

section \<open>The interpreter state\<close>

text \<open>
  A target of the build graph: its name, its class, the directory and subproject it was
  declared in, and \<open>t_rest\<close> for everything else the object holds (sources, command,
  keyword arguments).
\<close>

datatype target_type = Executable | SharedLibrary | StaticLibrary | Jar | CustomTarget | RunTarget

record target =
  t_name :: string
  t_type :: target_type
  t_subdir :: string
  t_subproject :: string
  t_rest :: nat

text \<open>
  \<open>ConfigurationDataHolder\<close>: the flag \<open>used\<close> and the \<open>values\<close> dictionary of the held
  \<open>build.ConfigurationData\<close>.
\<close>

record ConfigurationDataHolder =
  used :: bool
  conf_values :: confdata

text \<open>
  The parts of \<open>build.Build\<close> the modelled functions touch: the \<open>targets\<close> dictionary,
  \<open>global_args\<close> by language, the names of the subprojects run, the \<open>data\<close> entries
  (directory and file names) and the install scripts of modules.
\<close>

record build =
  targets :: "string \<rightharpoonup> target"
  global_args :: "string \<rightharpoonup> val list"
  b_subprojects :: "string set"
  data :: "(string \<times> string list) list"
  install_scripts :: "nat list"

text \<open>
  The fields of \<open>Interpreter\<close> the modelled functions touch, the \<open>target_guids\<close> of the
  core data, and the objects the script of this interpreter has created, by object
  identity, with the next free identity. A script value \<open>VObj n\<close> with
  \<open>heap n = Some h\<close> is the \<open>ConfigurationDataHolder\<close> \<open>h\<close>; the variables of a
  script hold only objects its own interpreter has made.
\<close>

record interp =
  build :: build
  subproject :: string
  subdir :: string
  subproject_dir :: string
  global_args_frozen :: bool
  subprojects :: "string \<rightharpoonup> nat"
  subproject_stack :: "string list"
  active_projectname :: string
  build_def_files :: "string list"
  target_guids :: "string \<rightharpoonup> string"
  heap :: "nat \<rightharpoonup> ConfigurationDataHolder"
  next_obj :: nat

type_synonym kwargs = "string \<rightharpoonup> val"

text \<open>\<open>Interpreter.__init__\<close>: the fields as a new interpreter of the root project has
  them, on a new build.\<close>

definition new_build :: build where
  "new_build = \<lparr>targets = Map.empty, global_args = Map.empty, b_subprojects = {},
                 data = [], install_scripts = []\<rparr>"

definition new_interp :: "string \<Rightarrow> interp" where
  "new_interp spdir =
     \<lparr>build = new_build, subproject = [], subdir = [], subproject_dir = spdir,
      global_args_frozen = False, subprojects = Map.empty, subproject_stack = [],
      active_projectname = [], build_def_files = [''meson.build''],
      target_guids = Map.empty, heap = Map.empty, next_obj = 0\<rparr>"

text \<open>The decorators \<open>stringArgs\<close> and \<open>noKwargs\<close>, run before the function's body. The
  positional arguments of a function call arrive flattened, as a list.\<close>

definition check_stringlist :: "val list \<Rightarrow> error option" where
  "check_stringlist a =
     (if \<not> list_all is_str a then Some (InvalidArguments ''Arguments must be strings.'') else None)"

definition check_noKwargs :: "kwargs \<Rightarrow> error option" where
  "check_noKwargs kw =
     (if kw \<noteq> Map.empty then Some (InvalidArguments ''Function does not take keyword arguments.'')
      else None)"

definition sq :: string where
  "sq = [CHR 0x27]"

text \<open>
  What the interpreter calls outside the modelled functions, as parameters:
  \<^item> of \<open>coredata.py\<close> and \<open>build.py\<close>, which are not among the sources: the reserved
    target names, the \<open>get_id\<close> of a target, and the constructors of the target classes
    (for a build target together with the preparation of its sources, which can raise);
  \<^item> \<open>uuid4\<close>, the text of the new GUID for an id;
  \<^item> \<open>resolve\<close>, the outcome of \<open>wrap.Resolver.resolve\<close> for a subproject name on the
    current file system, and \<open>subi_run\<close>, the outcome of constructing and running the
    sub-interpreter from its initial fields;
  \<^item> \<open>conf_io\<close>, the outcome of \<open>os.makedirs\<close> and \<open>mesonlib.do_conf_file\<close> on the two
    files and the configuration values (an exception or none), and \<open>run_command\<close>, the
    return code, output and error output of a command.
\<close>

record world =
  forbidden_target_names :: "string set"
  get_id :: "target \<Rightarrow> string"
  BuildTarget_init :: "target_type \<Rightarrow> val \<Rightarrow> string \<Rightarrow> string \<Rightarrow> val list \<Rightarrow> kwargs \<Rightarrow> error + target"
  CustomTarget_init :: "string \<Rightarrow> string \<Rightarrow> kwargs \<Rightarrow> error + target"
  RunTarget_init :: "string \<Rightarrow> string \<Rightarrow> val list \<Rightarrow> string \<Rightarrow> error + target"
  uuid4 :: "string \<Rightarrow> string"
  resolve :: "string \<Rightarrow> error + string option"
  subi_run :: "interp \<Rightarrow> error + interp"
  conf_io :: "string \<Rightarrow> string \<Rightarrow> confdata \<Rightarrow> error option"
  run_command :: "val \<Rightarrow> error + (int \<times> string \<times> string)"

section \<open>Declaring targets\<close>

text \<open>
  Every modelled function returns the interpreter state when it ends together with its
  value or the exception it raised.

  \<open>Interpreter.add_target\<close>. The reserved names are strings, so only a string name can
  be among them.
\<close>

fun name_reserved :: "string set \<Rightarrow> val \<Rightarrow> bool" where
  "name_reserved F (VStr s) = (s \<in> F)"
| "name_reserved F v = False"

definition add_target :: "world \<Rightarrow> interp \<Rightarrow> val \<Rightarrow> target \<Rightarrow> interp \<times> (error + unit)" where
  "add_target W st name tobj =
     (if name_reserved (forbidden_target_names W) name
      then (st, Inl (InvalidArguments (''Target name '' @ dq @ py_str name @ dq
              @ '' is reserved for Meson'' @ sq @ ''s internal use. Please rename.'')))
      else
        (let idname = get_id W tobj in
         if targets (build st) idname \<noteq> None
         then (st, Inl (InvalidCode (''Tried to create target '' @ dq @ py_str name @ dq
                 @ '', but a target of that name already exists.'')))
         else
           (st\<lparr>build := (build st)\<lparr>targets := (targets (build st))(idname \<mapsto> tobj)\<rparr>,
               target_guids :=
                 (if target_guids st idname = None then (target_guids st)(idname \<mapsto> uuid4 W idname)
                  else target_guids st)\<rparr>,
            Inr ())))"

text \<open>
  \<open>Interpreter.build_target\<close> for the holder classes of \<open>func_executable\<close>,
  \<open>func_static_lib\<close>, \<open>func_shared_lib\<close> and \<open>func_jar\<close>. \<open>args[0]\<close> on an empty
  argument list raises \<open>IndexError\<close>. The value returned is the holder of the target.
\<close>

definition build_target ::
  "world \<Rightarrow> interp \<Rightarrow> val list \<Rightarrow> kwargs \<Rightarrow> target_type \<Rightarrow> interp \<times> (error + target)" where
  "build_target W st args kw targetclass =
     (case args of
        [] \<Rightarrow> (st, Inl (OtherError ''IndexError''))
      | name # sources \<Rightarrow>
          (case BuildTarget_init W targetclass name (subdir st) (subproject st) sources kw of
             Inl e \<Rightarrow> (st, Inl e)
           | Inr target \<Rightarrow>
               (case add_target W st name target of
                  (st', Inl e) \<Rightarrow> (st', Inl e)
                | (st', Inr u) \<Rightarrow> (st'\<lparr>global_args_frozen := True\<rparr>, Inr target))))"

definition func_build_target ::
  "world \<Rightarrow> interp \<Rightarrow> val list \<Rightarrow> kwargs \<Rightarrow> interp \<times> (error + target)" where
  "func_build_target W st args kw =
     (case kw ''target_type'' of
        None \<Rightarrow> (st, Inl (InterpreterException ''Missing target_type keyword argument''))
      | Some target_type \<Rightarrow>
          (let kw' = kw(''target_type'' := None) in
           if target_type = VStr ''executable'' then build_target W st args kw' Executable
           else if target_type = VStr ''shared_library'' then build_target W st args kw' SharedLibrary
           else if target_type = VStr ''static_library'' then build_target W st args kw' StaticLibrary
           else if target_type = VStr ''jar'' then build_target W st args kw' Jar
           else (st, Inl (InterpreterException ''Unknown target_type.''))))"

text \<open>\<open>func_custom_target\<close> (under \<open>stringArgs\<close>) and \<open>func_run_target\<close> (under
  \<open>stringArgs\<close> and \<open>noKwargs\<close>).\<close>

definition func_custom_target ::
  "world \<Rightarrow> interp \<Rightarrow> val list \<Rightarrow> kwargs \<Rightarrow> interp \<times> (error + target)" where
  "func_custom_target W st args kw =
     (case check_stringlist args of
        Some e \<Rightarrow> (st, Inl e)
      | None \<Rightarrow>
          if length args \<noteq> 1 then (st, Inl (InterpreterException ''Incorrect number of arguments''))
          else
            (let name = py_str (args ! 0) in
             case CustomTarget_init W name (subdir st) kw of
               Inl e \<Rightarrow> (st, Inl e)
             | Inr tg \<Rightarrow>
                 (case add_target W st (VStr name) tg of
                    (st', Inl e) \<Rightarrow> (st', Inl e)
                  | (st', Inr u) \<Rightarrow> (st', Inr tg))))"

definition func_run_target ::
  "world \<Rightarrow> interp \<Rightarrow> val list \<Rightarrow> kwargs \<Rightarrow> interp \<times> (error + target)" where
  "func_run_target W st args kw =
     (case check_stringlist args of
        Some e \<Rightarrow> (st, Inl e)
      | None \<Rightarrow>
          (case check_noKwargs kw of
             Some e \<Rightarrow> (st, Inl e)
           | None \<Rightarrow>
               if length args < 2 then (st, Inl (InterpreterException ''Incorrect number of arguments''))
               else
                 (let name = py_str (args ! 0); command = py_str (args ! 1); cmd_args = drop 2 args in
                  case RunTarget_init W name command cmd_args (subdir st) of
                    Inl e \<Rightarrow> (st, Inl e)
                  | Inr tg \<Rightarrow>
                      (case add_target W st (VStr name) tg of
                         (st', Inl e) \<Rightarrow> (st', Inl e)
                       | (st', Inr u) \<Rightarrow> (st', Inr tg)))))"

text \<open>
  \<open>Interpreter.module_method_callback\<close>, which receives what a method of a module
  returned: targets, integers, strings, generated lists, install scripts, lists of
  these, or \<open>None\<close>. The classes are tested in the order custom target, integer or
  string, executable, list, generated list, run target, install script. A run target
  and an install script add nothing to the values returned.
\<close>

datatype modval =
    MNone
  | MTarget target
  | MInt int
  | MStr string
  | MList "modval list"
  | MGeneratedList nat
  | MInstallScript nat
  | MOther nat

datatype mret =
    RNone
  | RHolder target
  | RInt int
  | RStr string
  | RList "mret list"
  | RGeneratedList nat

definition register_by_name :: "interp \<Rightarrow> target \<Rightarrow> interp \<times> (error + unit)" where
  "register_by_name st v =
     (if targets (build st) (t_name v) \<noteq> None
      then (st, Inl (InterpreterException (''Tried to create target '' @ t_name v @ '' which already exists.'')))
      else (st\<lparr>build := (build st)\<lparr>targets := (targets (build st))(t_name v \<mapsto> v)\<rparr>\<rparr>, Inr ()))"

fun callback_value :: "interp \<Rightarrow> modval \<Rightarrow> interp \<times> (error + mret list)"
  and callback_loop :: "interp \<Rightarrow> modval list \<Rightarrow> interp \<times> (error + mret list)" where
  "callback_value st (MTarget v) =
     (if t_type v = CustomTarget \<or> t_type v = Executable then
        (case register_by_name st v of
           (st', Inl e) \<Rightarrow> (st', Inl e)
         | (st', Inr u) \<Rightarrow> (st', Inr [RHolder v]))
      else if t_type v = RunTarget then
        (case register_by_name st v of
           (st', Inl e) \<Rightarrow> (st', Inl e)
         | (st', Inr u) \<Rightarrow> (st', Inr []))
      else (st, Inl (InterpreterException ''Module returned a value of unknown type.'')))"
| "callback_value st (MInt i) = (st, Inr [RInt i])"
| "callback_value st (MStr s) = (st, Inr [RStr s])"
| "callback_value st (MList l) =
     (case callback_loop st l of
        (st', Inl e) \<Rightarrow> (st', Inl e)
      | (st', Inr outs) \<Rightarrow> (st', Inr [RList outs]))"
| "callback_value st (MGeneratedList g) = (st, Inr [RGeneratedList g])"
| "callback_value st (MInstallScript s) =
     (st\<lparr>build := (build st)\<lparr>install_scripts := install_scripts (build st) @ [s]\<rparr>\<rparr>, Inr [])"
| "callback_value st MNone = (st, Inl (InterpreterException ''Module returned a value of unknown type.''))"
| "callback_value st (MOther n) = (st, Inl (InterpreterException ''Module returned a value of unknown type.''))"
| "callback_loop st [] = (st, Inr [])"
| "callback_loop st (v # vs) =
     (case callback_value st v of
        (st', Inl e) \<Rightarrow> (st', Inl e)
      | (st', Inr out) \<Rightarrow>
          (case callback_loop st' vs of
             (st'', Inl e) \<Rightarrow> (st'', Inl e)
           | (st'', Inr outs) \<Rightarrow> (st'', Inr (out @ outs))))"

definition module_method_callback :: "interp \<Rightarrow> modval \<Rightarrow> interp \<times> (error + mret)" where
  "module_method_callback st invalues =
     (case invalues of
        MNone \<Rightarrow> (st, Inr RNone)
      | MList l \<Rightarrow>
          (case callback_loop st l of
             (st', Inl e) \<Rightarrow> (st', Inl e)
           | (st', Inr outvalues) \<Rightarrow> (st', Inr (RList outvalues)))
      | v \<Rightarrow>
          (case callback_loop st [v] of
             (st', Inl e) \<Rightarrow> (st', Inl e)
           | (st', Inr outvalues) \<Rightarrow>
               (st', Inr (if length outvalues = 1 then outvalues ! 0 else RList outvalues))))"

section \<open>Global arguments\<close>

text \<open>
  \<open>func_add_global_arguments\<close> (under \<open>stringArgs\<close>). \<open>kwargs['language'].lower()\<close>
  raises \<open>AttributeError\<close> when the value is not a string.
\<close>

definition frozen_msg :: string where
  "frozen_msg = ''Tried to set global arguments after a build target has been declared.'' @ nl
     @ ''This is not permitted. Please declare all global arguments before your targets.''"

definition func_add_global_arguments ::
  "interp \<Rightarrow> val list \<Rightarrow> kwargs \<Rightarrow> interp \<times> (error + val)" where
  "func_add_global_arguments st args kw =
     (case check_stringlist args of
        Some e \<Rightarrow> (st, Inl e)
      | None \<Rightarrow>
          if subproject st \<noteq> [] then
            (st, Inl (InvalidCode (''Global arguments can not be set in subprojects because ''
                                   @ ''there is no way to make that reliable.'')))
          else if global_args_frozen st then (st, Inl (InvalidCode frozen_msg))
          else
            (case kw ''language'' of
               None \<Rightarrow> (st, Inl (InvalidCode ''Missing language definition in add_global_arguments''))
             | Some (VStr l) \<Rightarrow>
                 (let lang = py_lower l in
                  (st\<lparr>build := (build st)\<lparr>global_args :=
                         (global_args (build st))
                           (lang \<mapsto> (case global_args (build st) lang of
                                         Some old \<Rightarrow> old @ args
                                       | None \<Rightarrow> args))\<rparr>\<rparr>,
                   Inr VNone))
             | Some v \<Rightarrow> (st, Inl (OtherError ''AttributeError''))))"

section \<open>Subprojects\<close>

text \<open>
  \<open>func_subproject\<close> (under \<open>stringArgs\<close> and \<open>noKwargs\<close>). The sub-interpreter is
  built on the same build, with the same \<open>subprojects\<close> dictionary and the stack extended
  by the name; the holder of the finished sub-interpreter is a new object. When the
  resolver or the sub-interpreter raises, the state returned is the caller's own at that
  point.
\<close>

definition func_subproject ::
  "world \<Rightarrow> interp \<Rightarrow> val list \<Rightarrow> kwargs \<Rightarrow> interp \<times> (error + val)" where
  "func_subproject W st args kw =
     (case check_stringlist args of
        Some e \<Rightarrow> (st, Inl e)
      | None \<Rightarrow>
     (case check_noKwargs kw of
        Some e \<Rightarrow> (st, Inl e)
      | None \<Rightarrow>
          if length args \<noteq> 1 then (st, Inl (InterpreterException ''Subproject takes exactly one argument''))
          else
            (let dirname = py_str (args ! 0) in
             if subdir st \<noteq> [] \<and> fst (posix_split (subdir st)) \<noteq> subproject_dir st
             then (st, Inl (InterpreterException ''Subprojects must be defined at the root directory.''))
             else if dirname \<in> set (subproject_stack st)
             then (st, Inl (InterpreterException (''Recursive include of subprojects: ''
                      @ join '' => '' (subproject_stack st @ [dirname]) @ ''.'')))
             else
               (case subprojects st dirname of
                  Some holder \<Rightarrow> (st, Inr (VObj holder))
                | None \<Rightarrow>
                    (case resolve W dirname of
                       Inl e \<Rightarrow> (st, Inl e)
                     | Inr None \<Rightarrow>
                         (st, Inl (InterpreterException
                            ''Subproject directory does not exist and can not be downloaded.''))
                     | Inr (Some resolved) \<Rightarrow>
                         (let st1 = st\<lparr>global_args_frozen := True\<rparr>;
                              subi = \<lparr>build = build st1, subproject = dirname,
                                      subdir = path_join (subproject_dir st1) resolved,
                                      subproject_dir = subproject_dir st1,
                                      global_args_frozen = False,
                                      subprojects = subprojects st1,
                                      subproject_stack = subproject_stack st1 @ [dirname],
                                      active_projectname = [],
                                      build_def_files =
                                        [path_join (path_join (subproject_dir st1) resolved) ''meson.build''],
                                      target_guids = target_guids st1,
                                      heap = Map.empty, next_obj = 0\<rparr>
                          in case subi_run W subi of
                               Inl e \<Rightarrow> (st1, Inl e)
                             | Inr subi' \<Rightarrow>
                                 (let holder = next_obj st1 in
                                  (st1\<lparr>build := (build subi')\<lparr>b_subprojects :=
                                          insert dirname (b_subprojects (build subi'))\<rparr>,
                                       subprojects := (subprojects subi')(dirname \<mapsto> holder),
                                       build_def_files := build_def_files st1 @ build_def_files subi',
                                       target_guids := target_guids subi',
                                       next_obj := Suc holder\<rparr>,
                                   Inr (VObj holder)))))))))"

section \<open>Configuration data\<close>

text \<open>\<open>ConfigurationDataHolder\<close>: \<open>validate_args\<close>, \<open>set_method\<close>, \<open>set10_method\<close>,
  \<open>mark_used\<close>, and the method table of \<open>InterpreterObject.method_call\<close>. A method
  returns the holder as it left it.\<close>

definition new_holder :: ConfigurationDataHolder where
  "new_holder = \<lparr>used = False, conf_values = Map.empty\<rparr>"

definition mark_used :: "ConfigurationDataHolder \<Rightarrow> ConfigurationDataHolder" where
  "mark_used h = h\<lparr>used := True\<rparr>"

definition validate_args :: "ConfigurationDataHolder \<Rightarrow> val list \<Rightarrow> error + (string \<times> val)" where
  "validate_args h args =
     (if length args \<noteq> 2 then Inl (InterpreterException ''Configuration set requires 2 arguments.'')
      else if used h
      then Inl (InterpreterException ''Can not set values on configuration object that has been used.'')
      else
        (case args ! 0 of
           VStr name \<Rightarrow> Inr (name, args ! 1)
         | _ \<Rightarrow> Inl (InterpreterException ''First argument to set must be a string.'')))"

definition set_method ::
  "ConfigurationDataHolder \<Rightarrow> val list \<Rightarrow> kwargs \<Rightarrow> ConfigurationDataHolder \<times> (error + val)" where
  "set_method h args kw =
     (case validate_args h args of
        Inl e \<Rightarrow> (h, Inl e)
      | Inr (name, v) \<Rightarrow> (h\<lparr>conf_values := (conf_values h)(name \<mapsto> v)\<rparr>, Inr VNone))"

definition set10_method ::
  "ConfigurationDataHolder \<Rightarrow> val list \<Rightarrow> kwargs \<Rightarrow> ConfigurationDataHolder \<times> (error + val)" where
  "set10_method h args kw =
     (case validate_args h args of
        Inl e \<Rightarrow> (h, Inl e)
      | Inr (name, v) \<Rightarrow>
          (if py_truthy v then h\<lparr>conf_values := (conf_values h)(name \<mapsto> VInt 1)\<rparr>
           else h\<lparr>conf_values := (conf_values h)(name \<mapsto> VInt 0)\<rparr>,
           Inr VNone))"

definition holder_method_call ::
  "ConfigurationDataHolder \<Rightarrow> string \<Rightarrow> val list \<Rightarrow> kwargs
   \<Rightarrow> ConfigurationDataHolder \<times> (error + val)" where
  "holder_method_call h method_name args kw =
     (if method_name = ''set'' then set_method h args kw
      else if method_name = ''set10'' then set10_method h args kw
      else (h, Inl (InvalidCode (''Unknown method '' @ dq @ method_name @ dq @ '' in object.''))))"

text \<open>
  A method call of the script on the object \<open>obj\<close>, for the configuration-data objects;
  a value that is no interpreter object is not callable.
\<close>

definition method_call ::
  "interp \<Rightarrow> string \<Rightarrow> val \<Rightarrow> string \<Rightarrow> val list \<Rightarrow> kwargs \<Rightarrow> interp \<times> (error + val)" where
  "method_call st object_name obj method_name args kw =
     (case obj of
        VObj n \<Rightarrow>
          (case heap st n of
             Some h \<Rightarrow>
               (case holder_method_call h method_name args kw of
                  (h', r) \<Rightarrow> (st\<lparr>heap := (heap st)(n \<mapsto> h')\<rparr>, r))
           | None \<Rightarrow> (st, Inl (InvalidCode (''Unknown method '' @ dq @ method_name @ dq @ '' in object.''))))
      | _ \<Rightarrow> (st, Inl (InvalidArguments (''Variable '' @ dq @ object_name @ dq @ '' is not callable.''))))"

text \<open>\<open>func_configuration_data\<close> (under \<open>noKwargs\<close>) makes a new holder.\<close>

definition func_configuration_data ::
  "interp \<Rightarrow> val list \<Rightarrow> kwargs \<Rightarrow> interp \<times> (error + val)" where
  "func_configuration_data st args kw =
     (case check_noKwargs kw of
        Some e \<Rightarrow> (st, Inl e)
      | None \<Rightarrow>
          if length args \<noteq> 0 then (st, Inl (InterpreterException ''configuration_data takes no arguments''))
          else (st\<lparr>heap := (heap st)(next_obj st \<mapsto> new_holder), next_obj := Suc (next_obj st)\<rparr>,
                Inr (VObj (next_obj st))))"

text \<open>
  \<open>func_configure_file\<close>. The input file joins \<open>build_def_files\<close> before the file is
  written, and the holder is marked used after \<open>do_conf_file\<close> has returned.
\<close>

definition is_conf_holder :: "interp \<Rightarrow> val \<Rightarrow> bool" where
  "is_conf_holder st v = (case v of VObj n \<Rightarrow> heap st n \<noteq> None | _ \<Rightarrow> False)"

definition configure_tail :: "interp \<Rightarrow> kwargs \<Rightarrow> string \<Rightarrow> interp \<times> (error + val)" where
  "configure_tail st kw output =
     ((case kw ''install_dir'' of
         Some (VStr d) \<Rightarrow> st\<lparr>build := (build st)\<lparr>data := data (build st) @ [(subdir st, [output])]\<rparr>\<rparr>
       | _ \<Rightarrow> st),
      Inr (VFile True (subdir st) output))"

definition func_configure_file ::
  "world \<Rightarrow> interp \<Rightarrow> val list \<Rightarrow> kwargs \<Rightarrow> interp \<times> (error + val)" where
  "func_configure_file W st args kw =
     (if length args > 0 then (st, Inl (InterpreterException ''configure_file takes only keyword arguments.''))
      else
        (case kw ''input'' of
           None \<Rightarrow> (st, Inl (InterpreterException
                      (''Required keyword argument '' @ dq @ ''input'' @ dq @ '' not defined.'')))
         | Some inputfile \<Rightarrow>
        (case kw ''output'' of
           None \<Rightarrow> (st, Inl (InterpreterException
                      (''Required keyword argument '' @ dq @ ''output'' @ dq @ '' not defined.'')))
         | Some output \<Rightarrow>
             if \<not> is_str inputfile then (st, Inl (InterpreterException ''Input must be a string.''))
             else if \<not> is_str output then (st, Inl (InterpreterException ''Output must be a string.''))
             else
               (case kw ''configuration'' of
                  Some conf \<Rightarrow>
                    (case conf of
                       VObj n \<Rightarrow>
                         (case heap st n of
                            None \<Rightarrow> (st, Inl (InterpreterException
                              (''Argument '' @ dq @ ''configuration'' @ dq @ '' is not of type configuration_data'')))
                          | Some h \<Rightarrow>
                              (let conffile = path_join (subdir st) (py_str inputfile);
                                   st1 = (if conffile \<notin> set (build_def_files st)
                                          then st\<lparr>build_def_files := build_def_files st @ [conffile]\<rparr>
                                          else st)
                               in case conf_io W conffile (path_join (subdir st) (py_str output))
                                         (conf_values h) of
                                    Some e \<Rightarrow> (st1, Inl e)
                                  | None \<Rightarrow>
                                      configure_tail (st1\<lparr>heap := (heap st1)(n \<mapsto> mark_used h)\<rparr>)
                                        kw (py_str output)))
                     | _ \<Rightarrow> (st, Inl (InterpreterException
                              (''Argument '' @ dq @ ''configuration'' @ dq @ '' is not of type configuration_data''))))
                | None \<Rightarrow>
                    (case kw ''command'' of
                       Some command \<Rightarrow>
                         (case run_command W command of
                            Inl e \<Rightarrow> (st, Inl e)
                          | Inr (returncode, out, err) \<Rightarrow>
                              if returncode \<noteq> 0
                              then (st, Inl (InterpreterException
                                     (''Running configure command failed.'' @ nl @ out @ nl @ err)))
                              else configure_tail st kw (py_str output))
                     | None \<Rightarrow>
                         (st, Inl (InterpreterException
                            (''Configure_file must have either '' @ dq @ ''configuration'' @ dq
                             @ '' or '' @ dq @ ''command'' @ dq @ ''.''))))))))"

section \<open>Statements\<close>

text \<open>
  The statements of a build description that reach the modelled functions: a call of a
  built-in function with its flattened positional and its keyword arguments, a method
  call on a value, and the return of a module's method with the value it returned. A
  script runs its statements in order and ends at the first exception.
\<close>

datatype builtin =
    F_executable | F_static_library | F_shared_library | F_jar | F_build_target
  | F_custom_target | F_run_target | F_add_global_arguments | F_subproject
  | F_configuration_data | F_configure_file

datatype stmt =
    Call builtin "val list" kwargs
  | MethodCall string val string "val list" kwargs
  | ModuleCall modval

definition discard :: "interp \<times> (error + 'a) \<Rightarrow> interp \<times> (error + unit)" where
  "discard x = (case x of (st, Inl e) \<Rightarrow> (st, Inl e) | (st, Inr v) \<Rightarrow> (st, Inr ()))"

fun function_call :: "world \<Rightarrow> interp \<Rightarrow> builtin \<Rightarrow> val list \<Rightarrow> kwargs \<Rightarrow> interp \<times> (error + unit)" where
  "function_call W st F_executable args kw = discard (build_target W st args kw Executable)"
| "function_call W st F_static_library args kw = discard (build_target W st args kw StaticLibrary)"
| "function_call W st F_shared_library args kw = discard (build_target W st args kw SharedLibrary)"
| "function_call W st F_jar args kw = discard (build_target W st args kw Jar)"
| "function_call W st F_build_target args kw = discard (func_build_target W st args kw)"
| "function_call W st F_custom_target args kw = discard (func_custom_target W st args kw)"
| "function_call W st F_run_target args kw = discard (func_run_target W st args kw)"
| "function_call W st F_add_global_arguments args kw = discard (func_add_global_arguments st args kw)"
| "function_call W st F_subproject args kw = discard (func_subproject W st args kw)"
| "function_call W st F_configuration_data args kw = discard (func_configuration_data st args kw)"
| "function_call W st F_configure_file args kw = discard (func_configure_file W st args kw)"

fun exec :: "world \<Rightarrow> interp \<Rightarrow> stmt \<Rightarrow> interp \<times> (error + unit)" where
  "exec W st (Call f args kw) = function_call W st f args kw"
| "exec W st (MethodCall object_name obj method_name args kw) =
     discard (method_call st object_name obj method_name args kw)"
| "exec W st (ModuleCall v) = discard (module_method_callback st v)"

fun run :: "world \<Rightarrow> interp \<Rightarrow> stmt list \<Rightarrow> interp \<times> (error + unit)" where
  "run W st [] = (st, Inr ())"
| "run W st (s # ss) =
     (case exec W st s of
        (st', Inl e) \<Rightarrow> (st', Inl e)
      | (st', Inr u) \<Rightarrow> run W st' ss)"

text \<open>The statements that declare a build target, and those that freeze the global
  arguments: the former and \<open>subproject\<close>.\<close>

fun declares_build_target :: "stmt \<Rightarrow> bool" where
  "declares_build_target (Call f args kw) =
     (f = F_executable \<or> f = F_static_library \<or> f = F_shared_library \<or> f = F_jar \<or> f = F_build_target)"
| "declares_build_target s = False"

fun freezes :: "stmt \<Rightarrow> bool" where
  "freezes (Call f args kw) =
     (f = F_executable \<or> f = F_static_library \<or> f = F_shared_library \<or> f = F_jar \<or> f = F_build_target
      \<or> f = F_subproject)"
| "freezes s = False"

section \<open>A sample world\<close>

text \<open>
  Modelled from the spec: \<open>coredata.forbidden_target_names\<close>, \<open>get_id\<close> and the
  constructors of the target classes are in \<open>coredata.py\<close> and \<open>build.py\<close>, which are not
  among the sources. The specification names \<open>all\<close>, \<open>clean\<close>, \<open>test\<close>, \<open>install\<close>,
  \<open>build.ninja\<close> and \<open>PHONY\<close> among the reserved names, makes the id a function of name,
  target type and directory that keeps an executable and a library of one name apart,
  and gives \<open>prog@exe\<close> as the id of the executable \<open>prog\<close>. The sample world takes
  the name followed by \<open>@\<close> and a tag of the target type as the id, and constructors
  that store their arguments. Its resolver finds every subproject in place, its
  sub-interpreters and file operations do nothing and succeed.
\<close>

fun type_suffix :: "target_type \<Rightarrow> string" where
  "type_suffix Executable = ''@exe''"
| "type_suffix SharedLibrary = ''@sha''"
| "type_suffix StaticLibrary = ''@sta''"
| "type_suffix Jar = ''@jar''"
| "type_suffix CustomTarget = ''@cus''"
| "type_suffix RunTarget = ''@run''"

definition sample_get_id :: "target \<Rightarrow> string" where
  "sample_get_id t = t_name t @ type_suffix (t_type t)"

definition sample_BuildTarget_init ::
  "target_type \<Rightarrow> val \<Rightarrow> string \<Rightarrow> string \<Rightarrow> val list \<Rightarrow> kwargs \<Rightarrow> error + target" where
  "sample_BuildTarget_init cls name sd sp sources kw =
     (case name of
        VStr s \<Rightarrow> Inr \<lparr>t_name = s, t_type = cls, t_subdir = sd, t_subproject = sp,
                       t_rest = length sources\<rparr>
      | _ \<Rightarrow> Inl (InvalidArguments ''Target name must be a string.''))"

definition sample_CustomTarget_init :: "string \<Rightarrow> string \<Rightarrow> kwargs \<Rightarrow> error + target" where
  "sample_CustomTarget_init name sd kw =
     Inr \<lparr>t_name = name, t_type = CustomTarget, t_subdir = sd, t_subproject = [],
          t_rest = (case kw ''output'' of Some (VStr out) \<Rightarrow> length out | _ \<Rightarrow> 0)\<rparr>"

definition sample_RunTarget_init :: "string \<Rightarrow> string \<Rightarrow> val list \<Rightarrow> string \<Rightarrow> error + target" where
  "sample_RunTarget_init name command cmd_args sd =
     Inr \<lparr>t_name = name, t_type = RunTarget, t_subdir = sd, t_subproject = [],
          t_rest = length cmd_args\<rparr>"

definition sample_world :: world where
  "sample_world =
     \<lparr>forbidden_target_names = {''all'', ''clean'', ''test'', ''install'', ''build.ninja'', ''PHONY''},
      get_id = sample_get_id,
      BuildTarget_init = sample_BuildTarget_init,
      CustomTarget_init = sample_CustomTarget_init,
      RunTarget_init = sample_RunTarget_init,
      uuid4 = (\<lambda>idname. ''GUID-'' @ idname),
      resolve = (\<lambda>dirname. Inr (Some dirname)),
      subi_run = (\<lambda>subi. Inr subi),
      conf_io = (\<lambda>ifile ofile values. None),
      run_command = (\<lambda>command. Inr (0, [], []))\<rparr>"

text \<open>Every object of the heap was made before the next free identity.\<close>

definition heap_ok :: "interp \<Rightarrow> bool" where
  "heap_ok st = (\<forall>n. heap st n \<noteq> None \<longrightarrow> n < next_obj st)"

section \<open>The wrap resolver\<close>

text \<open>
  \<open>PackageDefinition\<close> of \<open>wrap.py\<close>: the type and the \<open>values\<close> dictionary, read from
  the text of a wrap file. The file is opened in text mode, which turns \<open>\r\n\<close> and
  \<open>\r\<close> into \<open>\n\<close>; the first line names the type, every further non-empty line is
  split at its first \<open>=\<close> (a line without one raises \<open>ValueError\<close>).
\<close>

record PackageDefinition =
  pd_type :: string
  pd_values :: "string \<rightharpoonup> string"

fun universal_newlines :: "string \<Rightarrow> string" where
  "universal_newlines [] = []"
| "universal_newlines [c] = (if c = CHR 0x0D then [CHR 0x0A] else [c])"
| "universal_newlines (c # d # cs) =
     (if c = CHR 0x0D \<and> d = CHR 0x0A then CHR 0x0A # universal_newlines cs
      else if c = CHR 0x0D then CHR 0x0A # universal_newlines (d # cs)
      else c # universal_newlines (d # cs))"

text \<open>The lines of a text as iterating over the file gives them, without their newline.\<close>

fun lines_acc :: "string \<Rightarrow> string \<Rightarrow> string list" where
  "lines_acc cur [] = (if cur = [] then [] else [rev cur])"
| "lines_acc cur (c # cs) =
     (if c = CHR 0x0A then rev cur # lines_acc [] cs else lines_acc (c # cur) cs)"

fun read_values :: "string list \<Rightarrow> (string \<rightharpoonup> string) \<Rightarrow> error + (string \<rightharpoonup> string)" where
  "read_values [] vals = Inr vals"
| "read_values (raw # rest) vals =
     (let line = py_strip raw in
      if line = [] then read_values rest vals
      else if CHR ''='' \<notin> set line then Inl (OtherError ''ValueError'')
      else
        (let k = py_strip (takeWhile (\<lambda>c. c \<noteq> CHR ''='') line);
             v = py_strip (drop 1 (dropWhile (\<lambda>c. c \<noteq> CHR ''='') line))
         in read_values rest (vals(k \<mapsto> v))))"

definition PackageDefinition_init :: "string \<Rightarrow> error + PackageDefinition" where
  "PackageDefinition_init text =
     (let ls = lines_acc [] (universal_newlines text);
          first = py_strip (case ls of [] \<Rightarrow> [] | l # rest \<Rightarrow> l)
      in if first = ''[wrap-file]'' \<or> first = ''[wrap-git]'' then
           (case read_values (drop 1 ls) Map.empty of
              Inl e \<Rightarrow> Inl e
            | Inr vals \<Rightarrow>
                Inr \<lparr>pd_type = (if first = ''[wrap-file]'' then ''file'' else ''git''),
                     pd_values = vals\<rparr>)
         else Inl (RuntimeError ''Invalid format of package file''))"

definition pd_get :: "PackageDefinition \<Rightarrow> string \<Rightarrow> error + string" where
  "pd_get p key = (case pd_values p key of None \<Rightarrow> Inl (KeyError key) | Some v \<Rightarrow> Inr v)"

definition has_patch :: "PackageDefinition \<Rightarrow> bool" where
  "has_patch p = (pd_values p ''patch_url'' \<noteq> None)"

text \<open>
  The file system under the subprojects directory: the regular files with their
  contents and the directories, by path, and the record of what the resolver did to the
  outside: downloads, directories made, files written, archives unpacked (with the
  bytes of the archive at that moment).
\<close>

datatype event =
    EvDownload string
  | EvMkdir string
  | EvWrite string string
  | EvUnpack string "string option" string

record fsys =
  files :: "string \<rightharpoonup> string"
  dirs :: "string set"
  trace :: "event list"

fun is_unpack :: "event \<Rightarrow> bool" where
  "is_unpack (EvUnpack path bytes dir) = True"
| "is_unpack e = False"

fun is_download :: "event \<Rightarrow> bool" where
  "is_download (EvDownload url) = True"
| "is_download e = False"

definition path_exists :: "fsys \<Rightarrow> string \<Rightarrow> bool" where
  "path_exists fs p = (files fs p \<noteq> None \<or> p \<in> dirs fs)"

definition isfile :: "fsys \<Rightarrow> string \<Rightarrow> bool" where
  "isfile fs p = (files fs p \<noteq> None)"

definition isdir :: "fsys \<Rightarrow> string \<Rightarrow> bool" where
  "isdir fs p = (p \<in> dirs fs)"

text \<open>\<open>os.mkdir\<close> and \<open>open(path, 'wb').write(data)\<close>; the parent directory is taken to
  exist.\<close>

definition os_mkdir :: "fsys \<Rightarrow> string \<Rightarrow> fsys \<times> (error + unit)" where
  "os_mkdir fs p =
     (if path_exists fs p then (fs, Inl (OtherError ''FileExistsError''))
      else (fs\<lparr>dirs := insert p (dirs fs), trace := trace fs @ [EvMkdir p]\<rparr>, Inr ()))"

definition write_file :: "fsys \<Rightarrow> string \<Rightarrow> string \<Rightarrow> fsys \<times> (error + unit)" where
  "write_file fs p bytes =
     (if p \<in> dirs fs then (fs, Inl (OtherError ''IsADirectoryError''))
      else (fs\<lparr>files := (files fs)(p \<mapsto> bytes), trace := trace fs @ [EvWrite p bytes]\<rparr>, Inr ()))"

text \<open>
  What the resolver calls outside \<open>wrap.py\<close>, as parameters: \<open>get_data\<close>, the bytes a URL
  delivers or the exception of the download; \<open>get_hash\<close>, the SHA-256 of bytes as
  hexadecimal text; \<open>unpack\<close>, the members \<open>shutil.unpack_archive\<close> finds in the bytes of
  an archive, each a relative path with the content of a file or \<open>None\<close> for a directory,
  or its exception; \<open>get_git\<close>, the outcome of the git commands of \<open>Resolver.get_git\<close>.
\<close>

record wrap_world =
  get_data :: "string \<Rightarrow> error + string"
  get_hash :: "string \<Rightarrow> string"
  unpack :: "string \<Rightarrow> error + (string \<times> string option) list"
  get_git :: "PackageDefinition \<Rightarrow> string \<Rightarrow> fsys \<Rightarrow> fsys \<times> (error + unit)"

fun place_members :: "string \<Rightarrow> (string \<times> string option) list \<Rightarrow> fsys \<Rightarrow> fsys" where
  "place_members dir [] fs = fs"
| "place_members dir ((rel, Some bytes) # ms) fs =
     place_members dir ms (fs\<lparr>files := (files fs)(path_join dir rel \<mapsto> bytes)\<rparr>)"
| "place_members dir ((rel, None) # ms) fs =
     place_members dir ms (fs\<lparr>dirs := insert (path_join dir rel) (dirs fs)\<rparr>)"

definition unpack_archive :: "wrap_world \<Rightarrow> fsys \<Rightarrow> string \<Rightarrow> string \<Rightarrow> fsys \<times> (error + unit)" where
  "unpack_archive W fs filename extract_dir =
     (let fs1 = fs\<lparr>trace := trace fs @ [EvUnpack filename (files fs filename) extract_dir]\<rparr> in
      case files fs filename of
        None \<Rightarrow> (fs1, Inl (OtherError ''ReadError''))
      | Some bytes \<Rightarrow>
          (case unpack W bytes of
             Inl e \<Rightarrow> (fs1, Inl e)
           | Inr members \<Rightarrow> (place_members extract_dir members fs1, Inr ())))"

definition fetch :: "wrap_world \<Rightarrow> fsys \<Rightarrow> string \<Rightarrow> fsys \<times> (error + string)" where
  "fetch W fs url =
     (let fs1 = fs\<lparr>trace := trace fs @ [EvDownload url]\<rparr> in
      case get_data W url of Inl e \<Rightarrow> (fs1, Inl e) | Inr bytes \<Rightarrow> (fs1, Inr bytes))"

definition hash_msg :: "string \<Rightarrow> string \<Rightarrow> string \<Rightarrow> string \<Rightarrow> string" where
  "hash_msg what packagename expected actual =
     ''Incorrect hash for '' @ what @ '' '' @ packagename @ '':'' @ nl @ '' '' @ expected
     @ '' expected'' @ nl @ '' '' @ actual @ '' actual''"

text \<open>\<open>Resolver.download\<close>, with \<open>cachedir\<close> the resolver's cache directory.\<close>

definition download_patch ::
  "wrap_world \<Rightarrow> string \<Rightarrow> fsys \<Rightarrow> PackageDefinition \<Rightarrow> string \<Rightarrow> fsys \<times> (error + unit)" where
  "download_patch W cachedir fs p packagename =
     (case pd_get p ''patch_url'' of
        Inl e \<Rightarrow> (fs, Inl e)
      | Inr purl \<Rightarrow>
          (case fetch W fs purl of
             (fs1, Inl e) \<Rightarrow> (fs1, Inl e)
           | (fs1, Inr pdata) \<Rightarrow>
               (let phash = get_hash W pdata in
                case pd_get p ''patch_hash'' of
                  Inl e \<Rightarrow> (fs1, Inl e)
                | Inr expected \<Rightarrow>
                    if phash \<noteq> expected
                    then (fs1, Inl (RuntimeError (hash_msg ''patch'' packagename expected phash)))
                    else
                      (case pd_get p ''patch_filename'' of
                         Inl e \<Rightarrow> (fs1, Inl e)
                       | Inr pfn \<Rightarrow> write_file fs1 (path_join cachedir pfn) pdata))))"

definition download ::
  "wrap_world \<Rightarrow> string \<Rightarrow> fsys \<Rightarrow> PackageDefinition \<Rightarrow> string \<Rightarrow> fsys \<times> (error + unit)" where
  "download W cachedir fs p packagename =
     (case pd_get p ''source_filename'' of
        Inl e \<Rightarrow> (fs, Inl e)
      | Inr sfn \<Rightarrow>
          (let ofname = path_join cachedir sfn in
           if path_exists fs ofname then (fs, Inr ())
           else
             (case pd_get p ''source_url'' of
                Inl e \<Rightarrow> (fs, Inl e)
              | Inr srcurl \<Rightarrow>
                  (case fetch W fs srcurl of
                     (fs1, Inl e) \<Rightarrow> (fs1, Inl e)
                   | (fs1, Inr srcdata) \<Rightarrow>
                       (let dhash = get_hash W srcdata in
                        case pd_get p ''source_hash'' of
                          Inl e \<Rightarrow> (fs1, Inl e)
                        | Inr expected \<Rightarrow>
                            if dhash \<noteq> expected
                            then (fs1, Inl (RuntimeError
                                    (hash_msg ''source'' packagename expected dhash @ ''.'')))
                            else if has_patch p then
                              (case download_patch W cachedir fs1 p packagename of
                                 (fs2, Inl e) \<Rightarrow> (fs2, Inl e)
                               | (fs2, Inr u) \<Rightarrow> write_file fs2 ofname srcdata)
                            else write_file fs1 ofname srcdata)))))"

text \<open>\<open>Resolver.extract_package\<close>.\<close>

definition extract_package ::
  "wrap_world \<Rightarrow> string \<Rightarrow> fsys \<Rightarrow> PackageDefinition \<Rightarrow> fsys \<times> (error + unit)" where
  "extract_package W subdir_root fs package =
     (let cachedir = path_join subdir_root ''packagecache'' in
      case pd_get package ''directory'' of
        Inl e \<Rightarrow> (fs, Inl e)
      | Inr d \<Rightarrow>
          (let target_dir = path_join subdir_root d in
           if isdir fs target_dir then (fs, Inr ())
           else
             (case (case pd_get package ''lead_directory_missing'' of
                      Inl e \<Rightarrow> (fs, Inr subdir_root)
                    | Inr v \<Rightarrow>
                        (case os_mkdir fs target_dir of
                           (fs1, Inl e) \<Rightarrow> (fs1, Inl e)
                         | (fs1, Inr u) \<Rightarrow> (fs1, Inr target_dir))) of
                (fs1, Inl e) \<Rightarrow> (fs1, Inl e)
              | (fs1, Inr extract_dir) \<Rightarrow>
                  (case pd_get package ''source_filename'' of
                     Inl e \<Rightarrow> (fs1, Inl e)
                   | Inr sfn \<Rightarrow>
                       (case unpack_archive W fs1 (path_join cachedir sfn) extract_dir of
                          (fs2, Inl e) \<Rightarrow> (fs2, Inl e)
                        | (fs2, Inr u) \<Rightarrow>
                            if has_patch package then
                              (case pd_get package ''patch_filename'' of
                                 Inl e \<Rightarrow> (fs2, Inl e)
                               | Inr pfn \<Rightarrow>
                                   unpack_archive W fs2 (path_join cachedir pfn) subdir_root)
                            else (fs2, Inr ()))))))"

text \<open>\<open>Resolver.resolve\<close>: the directory name of the subproject, \<open>None\<close> when there is
  neither a wrap file nor a directory, or the exception.\<close>

definition resolve_wrap ::
  "wrap_world \<Rightarrow> string \<Rightarrow> fsys \<Rightarrow> string \<Rightarrow> fsys \<times> (error + string option)" where
  "resolve_wrap W subdir_root fs packagename =
     (let cachedir = path_join subdir_root ''packagecache'';
          fname = path_join subdir_root (packagename @ ''.wrap'');
          dirname = path_join subdir_root packagename
      in case files fs fname of
           None \<Rightarrow> if isdir fs dirname then (fs, Inr (Some packagename)) else (fs, Inr None)
         | Some text \<Rightarrow>
             (case PackageDefinition_init text of
                Inl e \<Rightarrow> (fs, Inl e)
              | Inr p \<Rightarrow>
                  (case (if pd_type p = ''file'' then
                           (case (if \<not> isdir fs cachedir then os_mkdir fs cachedir else (fs, Inr ())) of
                              (fs1, Inl e) \<Rightarrow> (fs1, Inl e)
                            | (fs1, Inr u) \<Rightarrow>
                                (case download W cachedir fs1 p packagename of
                                   (fs2, Inl e) \<Rightarrow> (fs2, Inl e)
                                 | (fs2, Inr u) \<Rightarrow> extract_package W subdir_root fs2 p))
                         else if pd_type p = ''git'' then get_git W p subdir_root fs
                         else (fs, Inl (RuntimeError ''Unreachable code.''))) of
                     (fs3, Inl e) \<Rightarrow> (fs3, Inl e)
                   | (fs3, Inr u) \<Rightarrow>
                       (case pd_get p ''directory'' of
                          Inl e \<Rightarrow> (fs3, Inl e)
                        | Inr d \<Rightarrow> (fs3, Inr (Some d))))))"

text \<open>A sample of the outside for evaluating the resolver: the bytes behind one URL, a
  hash that is the text itself, archives with one member, and no git.\<close>

definition sample_wrap_world :: wrap_world where
  "sample_wrap_world =
     \<lparr>get_data = (\<lambda>url. if url = ''https://example.org/zlib.tar.gz'' then Inr ''zlib-bytes''
                         else Inl (OtherError ''URLError'')),
      get_hash = (\<lambda>bytes. bytes),
      unpack = (\<lambda>bytes. Inr [(''zlib-1.2.8'', None)]),
      get_git = (\<lambda>p root fs. (fs, Inl (OtherError ''CalledProcessError'')))\<rparr>"

text \<open>A wrap file for \<open>zlib\<close> with the given \<open>source_hash\<close>, a subprojects directory that
  holds only this file, and one that also holds the archive in its cache.\<close>

definition sample_wrap_text :: "string \<Rightarrow> string" where
  "sample_wrap_text h =
     ''[wrap-file]'' @ nl @ ''directory = zlib-1.2.8'' @ nl @ nl
     @ ''source_url = https://example.org/zlib.tar.gz'' @ nl
     @ ''source_filename = zlib.tar.gz'' @ nl
     @ ''source_hash = '' @ h @ nl"

definition sample_package :: "string \<Rightarrow> PackageDefinition" where
  "sample_package h =
     \<lparr>pd_type = ''file'',
      pd_values = [''directory'' \<mapsto> ''zlib-1.2.8'',
                   ''source_url'' \<mapsto> ''https://example.org/zlib.tar.gz'',
                   ''source_filename'' \<mapsto> ''zlib.tar.gz'',
                   ''source_hash'' \<mapsto> h]\<rparr>"

definition sample_fs :: "string \<Rightarrow> fsys" where
  "sample_fs h =
     \<lparr>files = [''subprojects/zlib.wrap'' \<mapsto> sample_wrap_text h],
      dirs = {''subprojects''}, trace = []\<rparr>"

definition sample_cached_fs :: "string \<Rightarrow> string \<Rightarrow> fsys" where
  "sample_cached_fs h bytes =
     \<lparr>files = [''subprojects/zlib.wrap'' \<mapsto> sample_wrap_text h,
               ''subprojects/packagecache/zlib.tar.gz'' \<mapsto> bytes],
      dirs = {''subprojects'', ''subprojects/packagecache''}, trace = []\<rparr>"

text \<open>The statements whose targets, if any, are registered by \<open>add_target\<close>: every modelled
  statement but the return of a module's method and \<open>subproject\<close>, which runs another
  script on the same build.\<close>

fun registers_by_add_target :: "stmt \<Rightarrow> bool" where
  "registers_by_add_target (Call f args kw) = (f \<noteq> F_subproject)"
| "registers_by_add_target (MethodCall object_name obj method_name args kw) = True"
| "registers_by_add_target (ModuleCall v) = False"

section \<open>Properties of indexing\<close>




section \<open>Properties of addition\<close>




section \<open>Properties of the \<open>#mesondefine\<close> expansion\<close>


lemma split_acc_spaces:
  "\<forall>c \<in> set ws. isspace c \<Longrightarrow> split_acc [] (ws @ rest) = split_acc [] rest"
  by (induction ws) simp_all


lemma split_acc_only_spaces:
  "\<forall>c \<in> set ws. isspace c \<Longrightarrow> split_acc [] ws = []"
  using split_acc_spaces [of ws "[]"] by simp





section \<open>Properties of option keys\<close>






section \<open>Properties of \<open>subproject\<close>\<close>



section \<open>What the statements leave unchanged\<close>

lemma add_target_frame:
  "add_target W st name tobj = (st', r) \<Longrightarrow>
   subproject st' = subproject st \<and> global_args_frozen st' = global_args_frozen st
   \<and> heap st' = heap st \<and> next_obj st' = next_obj st"
  by (auto simp add: add_target_def Let_def split: if_splits)

lemma build_target_frame:
  "build_target W st args kw cls = (st', r) \<Longrightarrow>
   subproject st' = subproject st \<and> (global_args_frozen st \<longrightarrow> global_args_frozen st')
   \<and> heap st' = heap st \<and> next_obj st' = next_obj st"
  by (auto simp add: build_target_def split: list.splits sum.splits prod.splits dest: add_target_frame)

lemma build_target_freezes:
  "build_target W st args kw cls = (st', Inr t) \<Longrightarrow> global_args_frozen st'"
  by (auto simp add: build_target_def split: list.splits sum.splits prod.splits)

lemma func_build_target_frame:
  "func_build_target W st args kw = (st', r) \<Longrightarrow>
   subproject st' = subproject st \<and> (global_args_frozen st \<longrightarrow> global_args_frozen st')
   \<and> heap st' = heap st \<and> next_obj st' = next_obj st"
  by (auto simp add: func_build_target_def Let_def split: option.splits if_splits dest: build_target_frame)

lemma func_build_target_freezes:
  "func_build_target W st args kw = (st', Inr t) \<Longrightarrow> global_args_frozen st'"
  by (auto simp add: func_build_target_def Let_def split: option.splits if_splits dest: build_target_freezes)

lemma func_custom_target_frame:
  "func_custom_target W st args kw = (st', r) \<Longrightarrow>
   subproject st' = subproject st \<and> global_args_frozen st' = global_args_frozen st
   \<and> heap st' = heap st \<and> next_obj st' = next_obj st"
  by (auto simp add: func_custom_target_def Let_def
      split: option.splits if_splits sum.splits prod.splits dest: add_target_frame)

lemma func_run_target_frame:
  "func_run_target W st args kw = (st', r) \<Longrightarrow>
   subproject st' = subproject st \<and> global_args_frozen st' = global_args_frozen st
   \<and> heap st' = heap st \<and> next_obj st' = next_obj st"
  by (auto simp add: func_run_target_def Let_def
      split: option.splits if_splits sum.splits prod.splits dest: add_target_frame)

lemma register_by_name_frame:
  "register_by_name st v = (st', r) \<Longrightarrow>
   subproject st' = subproject st \<and> global_args_frozen st' = global_args_frozen st
   \<and> heap st' = heap st \<and> next_obj st' = next_obj st"
  by (auto simp add: register_by_name_def split: if_splits)

lemma callback_frame:
  "(\<forall>st' r. callback_value st v = (st', r) \<longrightarrow>
      subproject st' = subproject st \<and> global_args_frozen st' = global_args_frozen st
      \<and> heap st' = heap st \<and> next_obj st' = next_obj st)"
  "(\<forall>st' r. callback_loop st vs = (st', r) \<longrightarrow>
      subproject st' = subproject st \<and> global_args_frozen st' = global_args_frozen st
      \<and> heap st' = heap st \<and> next_obj st' = next_obj st)"
proof (induction st v and st vs rule: callback_value_callback_loop.induct)
  case (1 st v)
  then show ?case
    by (auto split: if_splits sum.splits prod.splits dest: register_by_name_frame)
next
  case (4 st l)
  then show ?case
    by (auto split: sum.splits prod.splits)
next
  case (10 st v vs)
  show ?case
  proof (intro allI impI)
    fix st' r
    assume a: "callback_loop st (v # vs) = (st', r)"
    obtain s1 r1 where c1: "callback_value st v = (s1, r1)" by (cases "callback_value st v")
    have f1: "subproject s1 = subproject st \<and> global_args_frozen s1 = global_args_frozen st
      \<and> heap s1 = heap st \<and> next_obj s1 = next_obj st"
      using "10.IH"(1) c1 by blast
    show "subproject st' = subproject st \<and> global_args_frozen st' = global_args_frozen st
      \<and> heap st' = heap st \<and> next_obj st' = next_obj st"
    proof (cases r1)
      case (Inl e)
      then show ?thesis using a c1 f1 by simp
    next
      case (Inr out)
      obtain s2 r2 where c2: "callback_loop s1 vs = (s2, r2)" by (cases "callback_loop s1 vs")
      have f2: "subproject s2 = subproject s1 \<and> global_args_frozen s2 = global_args_frozen s1
        \<and> heap s2 = heap s1 \<and> next_obj s2 = next_obj s1"
        using "10.IH"(2) [OF c1 [symmetric] Inr] c2 by blast
      have "st' = s2" using a c1 c2 Inr by (auto split: sum.splits)
      then show ?thesis using f1 f2 by simp
    qed
  qed
qed simp_all

lemma module_method_callback_frame:
  "module_method_callback st v = (st', r) \<Longrightarrow>
   subproject st' = subproject st \<and> global_args_frozen st' = global_args_frozen st
   \<and> heap st' = heap st \<and> next_obj st' = next_obj st"
proof -
  assume a: "module_method_callback st v = (st', r)"
  have l: "\<And>xs s q. callback_loop st xs = (s, q) \<Longrightarrow>
      subproject s = subproject st \<and> global_args_frozen s = global_args_frozen st
      \<and> heap s = heap st \<and> next_obj s = next_obj st"
    using callback_frame(2) by blast
  show ?thesis
  proof (cases v)
    case MNone
    then show ?thesis using a by (simp add: module_method_callback_def)
  next
    case (MList xs)
    obtain s q where c: "callback_loop st xs = (s, q)" by (cases "callback_loop st xs")
    then have "st' = s" using a MList by (auto simp add: module_method_callback_def split: sum.splits)
    then show ?thesis using l [OF c] by simp
  next
    case (MTarget t)
    obtain s q where c: "callback_loop st [v] = (s, q)" by (cases "callback_loop st [v]")
    then have "st' = s" using a MTarget by (auto simp add: module_method_callback_def split: sum.splits)
    then show ?thesis using l [OF c] by simp
  next
    case (MInt i)
    then show ?thesis using a by (simp add: module_method_callback_def)
  next
    case (MStr x)
    then show ?thesis using a by (simp add: module_method_callback_def)
  next
    case (MGeneratedList g)
    then show ?thesis using a by (simp add: module_method_callback_def)
  next
    case (MInstallScript x)
    then show ?thesis using a by (auto simp add: module_method_callback_def)
  next
    case (MOther x)
    then show ?thesis using a by (simp add: module_method_callback_def)
  qed
qed
lemma func_add_global_arguments_frame:
  "func_add_global_arguments st args kw = (st', r) \<Longrightarrow>
   subproject st' = subproject st \<and> global_args_frozen st' = global_args_frozen st
   \<and> heap st' = heap st \<and> next_obj st' = next_obj st"
  by (auto simp add: func_add_global_arguments_def Let_def
      split: option.splits if_splits val.splits)

lemma func_subproject_frame:
  "func_subproject W st args kw = (st', r) \<Longrightarrow>
   subproject st' = subproject st \<and> (global_args_frozen st \<longrightarrow> global_args_frozen st')
   \<and> heap st' = heap st \<and> next_obj st \<le> next_obj st'"
  by (auto simp add: func_subproject_def Let_def
      split: option.splits if_splits sum.splits)

lemma func_configuration_data_frame:
  "func_configuration_data st args kw = (st', r) \<Longrightarrow>
   subproject st' = subproject st \<and> global_args_frozen st' = global_args_frozen st"
  by (auto simp add: func_configuration_data_def split: option.splits if_splits)

lemma configure_tail_frame:
  "configure_tail st kw out = (st', r) \<Longrightarrow>
   subproject st' = subproject st \<and> global_args_frozen st' = global_args_frozen st
   \<and> heap st' = heap st \<and> next_obj st' = next_obj st"
  by (auto simp add: configure_tail_def split: option.splits val.splits)

lemma func_configure_file_frame:
  "func_configure_file W st args kw = (st', r) \<Longrightarrow>
   subproject st' = subproject st \<and> global_args_frozen st' = global_args_frozen st
   \<and> next_obj st' = next_obj st"
  by (auto simp add: func_configure_file_def Let_def
      split: option.splits if_splits sum.splits val.splits prod.splits dest!: configure_tail_frame)

lemma method_call_frame:
  "method_call st nm obj m args kw = (st', r) \<Longrightarrow>
   subproject st' = subproject st \<and> global_args_frozen st' = global_args_frozen st
   \<and> next_obj st' = next_obj st"
  by (auto simp add: method_call_def split: option.splits val.splits prod.splits)

lemma discard_fst: "discard x = (st', r) \<Longrightarrow> \<exists>q. x = (st', q)"
  by (cases x) (auto simp add: discard_def split: sum.splits)

lemma discard_ok: "discard x = (st', Inr u) \<Longrightarrow> \<exists>v. x = (st', Inr v)"
  by (cases x) (auto simp add: discard_def split: sum.splits)

lemma exec_frame:
  "exec W st s = (st', r) \<Longrightarrow>
   subproject st' = subproject st \<and> (global_args_frozen st \<longrightarrow> global_args_frozen st')"
proof (cases s)
  case (Call f args kw)
  assume a: "exec W st s = (st', r)"
  show ?thesis
    using a Call
    by (cases f)
      (auto dest!: discard_fst dest: build_target_frame func_build_target_frame
        func_custom_target_frame func_run_target_frame func_add_global_arguments_frame
        func_subproject_frame func_configuration_data_frame func_configure_file_frame)
next
  case (MethodCall nm obj m args kw)
  assume "exec W st s = (st', r)"
  then show ?thesis using MethodCall by (auto dest!: discard_fst dest: method_call_frame)
next
  case (ModuleCall v)
  assume "exec W st s = (st', r)"
  then show ?thesis using ModuleCall by (auto dest!: discard_fst dest: module_method_callback_frame)
qed

lemma exec_declares_freezes:
  "declares_build_target s \<Longrightarrow> exec W st s = (st', Inr u) \<Longrightarrow> global_args_frozen st'"
proof (cases s)
  case (Call f args kw)
  assume "declares_build_target s" "exec W st s = (st', Inr u)"
  then show ?thesis
    using Call
    by (cases f) (auto dest!: discard_ok dest: build_target_freezes func_build_target_freezes)
qed simp_all

lemma exec_not_freezes:
  "\<not> freezes s \<Longrightarrow> exec W st s = (st', r) \<Longrightarrow> global_args_frozen st' = global_args_frozen st"
proof (cases s)
  case (Call f args kw)
  assume a: "\<not> freezes s" "exec W st s = (st', r)"
  show ?thesis
    using a Call
    by (cases f)
      (auto dest!: discard_fst dest: func_custom_target_frame func_run_target_frame
        func_add_global_arguments_frame func_configuration_data_frame func_configure_file_frame)
next
  case (MethodCall nm obj m args kw)
  assume "exec W st s = (st', r)"
  then show ?thesis using MethodCall by (auto dest!: discard_fst dest: method_call_frame)
next
  case (ModuleCall v)
  assume "exec W st s = (st', r)"
  then show ?thesis using ModuleCall by (auto dest!: discard_fst dest: module_method_callback_frame)
qed

lemma run_append:
  "run W st (xs @ ys) =
     (case run W st xs of (st', Inl e) \<Rightarrow> (st', Inl e) | (st', Inr u) \<Rightarrow> run W st' ys)"
  by (induction xs arbitrary: st) (auto split: prod.splits sum.splits)

lemma run_frame:
  "run W st ss = (st', r) \<Longrightarrow>
   subproject st' = subproject st \<and> (global_args_frozen st \<longrightarrow> global_args_frozen st')"
proof (induction ss arbitrary: st)
  case Nil
  then show ?case by simp
next
  case (Cons s ss)
  obtain s1 r1 where e: "exec W st s = (s1, r1)" by (cases "exec W st s")
  note f = exec_frame [OF e]
  show ?case
  proof (cases r1)
    case (Inl x)
    then show ?thesis using Cons.prems e f by simp
  next
    case (Inr u)
    then have "run W s1 ss = (st', r)" using Cons.prems e by simp
    from Cons.IH [OF this] f show ?thesis by simp
  qed
qed

lemma run_not_freezes:
  "run W st ss = (st', r) \<Longrightarrow> \<forall>s \<in> set ss. \<not> freezes s \<Longrightarrow>
   global_args_frozen st' = global_args_frozen st"
proof (induction ss arbitrary: st)
  case Nil
  then show ?case by simp
next
  case (Cons s ss)
  obtain s1 r1 where e: "exec W st s = (s1, r1)" by (cases "exec W st s")
  have f: "global_args_frozen s1 = global_args_frozen st"
    using exec_not_freezes [OF _ e] Cons.prems(2) by simp
  show ?case
  proof (cases r1)
    case (Inl x)
    then show ?thesis using Cons.prems e f by simp
  next
    case (Inr u)
    then have "run W s1 ss = (st', r)" using Cons.prems e by simp
    from Cons.IH [OF this] Cons.prems(2) f show ?thesis by simp
  qed
qed

section \<open>Properties of the global arguments\<close>

text \<open>The definitions unfolded to run a concrete script in the sample world.\<close>

lemmas eval_defs =
  discard_def check_stringlist_def check_noKwargs_def new_interp_def new_build_def
  sample_world_def sample_get_id_def sample_BuildTarget_init_def sample_CustomTarget_init_def
  sample_RunTarget_init_def add_target_def build_target_def func_custom_target_def
  func_run_target_def func_build_target_def func_subproject_def func_add_global_arguments_def
  func_configuration_data_def func_configure_file_def configure_tail_def method_call_def
  holder_method_call_def set_method_def set10_method_def validate_args_def mark_used_def
  new_holder_def module_method_callback_def register_by_name_def posix_split_def path_join_def
  Let_def

text \<open>
  C5, as stated, lets every call before the first target declaration succeed and gives
  one error message for every later call. In the sample world: after \<open>subproject('sub')\<close>
  alone, with no target in the build, \<open>add_global_arguments('-DX', language: 'c')\<close> fails
  with the frozen-arguments message; in the interpreter of a subproject the call after
  \<open>executable('x', 'x.c')\<close> fails with the message about subprojects instead; a call
  without the \<open>language\<close> keyword fails in a new interpreter; and a call with a
  non-string argument after a target fails with \<open>InvalidArguments\<close>.
\<close>

theorem global_arguments_freeze_counterexample:
  "snd (run sample_world (new_interp ''subprojects'') [Call F_subproject [VStr ''sub''] Map.empty])
     = Inr ()
   \<and> targets (build (fst (run sample_world (new_interp ''subprojects'')
         [Call F_subproject [VStr ''sub''] Map.empty]))) = Map.empty
   \<and> snd (func_add_global_arguments
         (fst (run sample_world (new_interp ''subprojects'')
            [Call F_subproject [VStr ''sub''] Map.empty]))
         [VStr ''-DX''] [''language'' \<mapsto> VStr ''c''])
     = Inl (InvalidCode frozen_msg)
   \<and> snd (run sample_world
         ((new_interp ''subprojects'')\<lparr>subproject := ''sub'', subdir := ''subprojects/sub'',
             subproject_stack := [''sub'']\<rparr>)
         [Call F_executable [VStr ''x'', VStr ''x.c''] Map.empty]) = Inr ()
   \<and> snd (func_add_global_arguments
         (fst (run sample_world
            ((new_interp ''subprojects'')\<lparr>subproject := ''sub'', subdir := ''subprojects/sub'',
                subproject_stack := [''sub'']\<rparr>)
            [Call F_executable [VStr ''x'', VStr ''x.c''] Map.empty]))
         [VStr ''-DX''] [''language'' \<mapsto> VStr ''c''])
     = Inl (InvalidCode (''Global arguments can not be set in subprojects because ''
                         @ ''there is no way to make that reliable.''))
   \<and> snd (func_add_global_arguments (new_interp ''subprojects'') [VStr ''-DX''] Map.empty)
     = Inl (InvalidCode ''Missing language definition in add_global_arguments'')
   \<and> snd (run sample_world (new_interp ''subprojects'')
         [Call F_executable [VStr ''x'', VStr ''x.c''] Map.empty]) = Inr ()
   \<and> snd (func_add_global_arguments
         (fst (run sample_world (new_interp ''subprojects'')
            [Call F_executable [VStr ''x'', VStr ''x.c''] Map.empty]))
         [VInt 1] [''language'' \<mapsto> VStr ''c''])
     = Inl (InvalidArguments ''Arguments must be strings.'')"
  by (simp add: eval_defs)

text \<open>
  C5, amended. In the interpreter of the root project, once a build target (executable,
  static library, shared library, jar, also through \<open>build_target\<close>) has been declared,
  every later call of \<open>add_global_arguments\<close> with string arguments fails with
  \<open>InvalidCode\<close> and the message \<open>Tried to set global arguments after a build target has
  been declared.\<close> (and its second line). A call with string arguments and a string
  \<open>language\<close> keyword made in a new root interpreter after statements none of which
  declares a build target or calls \<open>subproject\<close> succeeds and adds the arguments to those
  of the lower-cased language. In the interpreter of a subproject every call with string
  arguments fails with \<open>InvalidCode\<close> and the message about subprojects.
\<close>

theorem global_arguments_freeze:
  "(run W st0 (pre @ s # post) = (st, Inr ()) \<and> declares_build_target s
      \<and> subproject st0 = [] \<and> list_all is_str args \<longrightarrow>
      func_add_global_arguments st args kw = (st, Inl (InvalidCode frozen_msg)))
   \<and> (run W (new_interp d) ss = (st, Inr ()) \<and> (\<forall>s \<in> set ss. \<not> freezes s)
      \<and> list_all is_str args \<and> kw ''language'' = Some (VStr l) \<longrightarrow>
      func_add_global_arguments st args kw
      = (st\<lparr>build := (build st)\<lparr>global_args :=
               (global_args (build st))
                 (py_lower l \<mapsto> (case global_args (build st) (py_lower l) of
                                    Some old \<Rightarrow> old @ args
                                  | None \<Rightarrow> args))\<rparr>\<rparr>,
         Inr VNone))
   \<and> (subproject st \<noteq> [] \<and> list_all is_str args \<longrightarrow>
      func_add_global_arguments st args kw
      = (st, Inl (InvalidCode (''Global arguments can not be set in subprojects because ''
                               @ ''there is no way to make that reliable.''))))"
proof (intro conjI impI)
  assume a: "run W st0 (pre @ s # post) = (st, Inr ()) \<and> declares_build_target s
      \<and> subproject st0 = [] \<and> list_all is_str args"
  obtain s1 r1 where p: "run W st0 pre = (s1, r1)" by (cases "run W st0 pre")
  have r1: "r1 = Inr ()" using a p by (cases r1) (simp_all add: run_append)
  then have rest: "run W s1 (s # post) = (st, Inr ())" using a p by (simp add: run_append)
  obtain s2 r2 where e: "exec W s1 s = (s2, r2)" by (cases "exec W s1 s")
  have r2: "r2 = Inr ()" using rest e by (cases r2) simp_all
  then have post: "run W s2 post = (st, Inr ())" using rest e by simp
  have "global_args_frozen s2" using exec_declares_freezes [of s W s1 s2 "()"] a e r2 by simp
  then have fr: "global_args_frozen st" using run_frame [OF post] by simp
  have "subproject st = subproject st0"
    using run_frame [OF p] exec_frame [OF e] run_frame [OF post] by simp
  then have sp: "subproject st = []" using a by simp
  show "func_add_global_arguments st args kw = (st, Inl (InvalidCode frozen_msg))"
    using a fr sp by (simp add: func_add_global_arguments_def check_stringlist_def)
next
  assume a: "run W (new_interp d) ss = (st, Inr ()) \<and> (\<forall>s \<in> set ss. \<not> freezes s)
      \<and> list_all is_str args \<and> kw ''language'' = Some (VStr l)"
  then have r: "run W (new_interp d) ss = (st, Inr ())" and nf: "\<forall>s \<in> set ss. \<not> freezes s"
    by simp_all
  have fr: "\<not> global_args_frozen st"
    using run_not_freezes [OF r nf] by (simp add: new_interp_def)
  have sp: "subproject st = []" using run_frame [OF r] by (simp add: new_interp_def)
  show "func_add_global_arguments st args kw
      = (st\<lparr>build := (build st)\<lparr>global_args :=
               (global_args (build st))
                 (py_lower l \<mapsto> (case global_args (build st) (py_lower l) of
                                    Some old \<Rightarrow> old @ args
                                  | None \<Rightarrow> args))\<rparr>\<rparr>,
         Inr VNone)"
    using a fr sp by (simp add: func_add_global_arguments_def check_stringlist_def Let_def)
next
  assume "subproject st \<noteq> [] \<and> list_all is_str args"
  then show "func_add_global_arguments st args kw
      = (st, Inl (InvalidCode (''Global arguments can not be set in subprojects because ''
                               @ ''there is no way to make that reliable.'')))"
    by (simp add: func_add_global_arguments_def check_stringlist_def)
qed

theorem global_arguments_freeze_witness:
  "snd (run sample_world (new_interp ''subprojects'')
         ([] @ Call F_executable [VStr ''x'', VStr ''x.c''] Map.empty # [])) = Inr ()
   \<and> declares_build_target (Call F_executable [VStr ''x'', VStr ''x.c''] Map.empty)
   \<and> func_add_global_arguments
         (fst (run sample_world (new_interp ''subprojects'')
            ([] @ Call F_executable [VStr ''x'', VStr ''x.c''] Map.empty # [])))
         [VStr ''-DX''] [''language'' \<mapsto> VStr ''c'']
       = (fst (run sample_world (new_interp ''subprojects'')
            ([] @ Call F_executable [VStr ''x'', VStr ''x.c''] Map.empty # [])),
          Inl (InvalidCode frozen_msg))
   \<and> snd (run sample_world (new_interp ''subprojects'')
         [Call F_custom_target [VStr ''gen''] [''output'' \<mapsto> VStr ''gen.c'']]) = Inr ()
   \<and> \<not> freezes (Call F_custom_target [VStr ''gen''] [''output'' \<mapsto> VStr ''gen.c''])
   \<and> snd (func_add_global_arguments
         (fst (run sample_world (new_interp ''subprojects'')
            [Call F_custom_target [VStr ''gen''] [''output'' \<mapsto> VStr ''gen.c'']]))
         [VStr ''-DX''] [''language'' \<mapsto> VStr ''c'']) = Inr VNone
   \<and> global_args (build (fst (func_add_global_arguments
         (fst (run sample_world (new_interp ''subprojects'')
            [Call F_custom_target [VStr ''gen''] [''output'' \<mapsto> VStr ''gen.c'']]))
         [VStr ''-DX''] [''language'' \<mapsto> VStr ''c'']))) ''c'' = Some [VStr ''-DX'']
   \<and> func_add_global_arguments
         ((new_interp ''subprojects'')\<lparr>subproject := ''sub'', subdir := ''subprojects/sub'',
             subproject_stack := [''sub'']\<rparr>)
         [VStr ''-DX''] [''language'' \<mapsto> VStr ''c'']
       = ((new_interp ''subprojects'')\<lparr>subproject := ''sub'', subdir := ''subprojects/sub'',
             subproject_stack := [''sub'']\<rparr>,
          Inl (InvalidCode (''Global arguments can not be set in subprojects because ''
                            @ ''there is no way to make that reliable.'')))"
proof -
  have lc: "py_lower ''c'' = ''c''" by code_simp
  have r1: "run sample_world (new_interp ''subprojects'')
              ([] @ Call F_executable [VStr ''x'', VStr ''x.c''] Map.empty # [])
            = (fst (run sample_world (new_interp ''subprojects'')
                 ([] @ Call F_executable [VStr ''x'', VStr ''x.c''] Map.empty # [])), Inr ())"
    by (simp add: eval_defs)
  have r2: "run sample_world (new_interp ''subprojects'')
              [Call F_custom_target [VStr ''gen''] [''output'' \<mapsto> VStr ''gen.c'']]
            = (fst (run sample_world (new_interp ''subprojects'')
                 [Call F_custom_target [VStr ''gen''] [''output'' \<mapsto> VStr ''gen.c'']]), Inr ())"
    by (simp add: eval_defs)
  show ?thesis
    using r1 r2 lc
      global_arguments_freeze [where W = sample_world and ?st0.0 = "new_interp ''subprojects''"
        and pre = "[]" and s = "Call F_executable [VStr ''x'', VStr ''x.c''] Map.empty"
        and post = "[]"
        and st = "fst (run sample_world (new_interp ''subprojects'')
                    ([] @ Call F_executable [VStr ''x'', VStr ''x.c''] Map.empty # []))"
        and args = "[VStr ''-DX'']" and kw = "[''language'' \<mapsto> VStr ''c'']"
        and d = "''subprojects''" and ss = "[]" and l = "''c''"]
      global_arguments_freeze [where W = sample_world and ?st0.0 = "new_interp ''subprojects''"
        and pre = "[]" and s = "Call F_executable [VStr ''x'', VStr ''x.c''] Map.empty"
        and post = "[]"
        and st = "fst (run sample_world (new_interp ''subprojects'')
                    [Call F_custom_target [VStr ''gen''] [''output'' \<mapsto> VStr ''gen.c'']])"
        and args = "[VStr ''-DX'']" and kw = "[''language'' \<mapsto> VStr ''c'']"
        and d = "''subprojects''"
        and ss = "[Call F_custom_target [VStr ''gen''] [''output'' \<mapsto> VStr ''gen.c'']]"
        and l = "''c''"]
      global_arguments_freeze [where W = sample_world and ?st0.0 = "new_interp ''subprojects''"
        and pre = "[]" and s = "Call F_executable [VStr ''x'', VStr ''x.c''] Map.empty"
        and post = "[]"
        and st = "(new_interp ''subprojects'')\<lparr>subproject := ''sub'', subdir := ''subprojects/sub'',
             subproject_stack := [''sub'']\<rparr>"
        and args = "[VStr ''-DX'']" and kw = "[''language'' \<mapsto> VStr ''c'']"
        and d = "''subprojects''" and ss = "[]" and l = "''c''"]
    by (simp add: eval_defs)
qed

section \<open>Properties of configuration data\<close>

lemma mark_used_idem: "used h \<Longrightarrow> mark_used h = h"
  by (simp add: mark_used_def)

lemma validate_args_used:
  "used h \<Longrightarrow> validate_args h args =
     Inl (InterpreterException
       (if length args \<noteq> 2 then ''Configuration set requires 2 arguments.''
        else ''Can not set values on configuration object that has been used.''))"
  by (simp add: validate_args_def)

lemma holder_method_call_used:
  "used h \<Longrightarrow> holder_method_call h m args kw = (h', r) \<Longrightarrow> h' = h"
  by (auto simp add: holder_method_call_def set_method_def set10_method_def validate_args_used
      split: if_splits)

lemma method_call_heap:
  assumes "method_call st nm obj m args kw = (st', r)"
  shows "(heap_ok st \<longrightarrow> heap_ok st')
         \<and> (heap st c = Some h \<and> used h \<longrightarrow> heap st' c = Some h)"
proof (cases obj)
  case (VObj n)
  show ?thesis
  proof (cases "heap st n")
    case None
    then show ?thesis using assms VObj by (simp add: method_call_def)
  next
    case (Some h0)
    obtain h1 r1 where hm: "holder_method_call h0 m args kw = (h1, r1)"
      by (cases "holder_method_call h0 m args kw")
    have st': "st' = st\<lparr>heap := (heap st)(n \<mapsto> h1)\<rparr>"
      using assms VObj Some hm by (simp add: method_call_def)
    have ok: "heap_ok st \<longrightarrow> heap_ok st'"
      using st' Some by (auto simp add: heap_ok_def)
    have kept: "heap st c = Some h \<and> used h \<longrightarrow> heap st' c = Some h"
    proof
      assume a: "heap st c = Some h \<and> used h"
      show "heap st' c = Some h"
      proof (cases "n = c")
        case True
        then have "h0 = h" using a Some by simp
        then have "h1 = h" using holder_method_call_used [OF _ hm] a by simp
        then show ?thesis using st' True by simp
      next
        case False
        then show ?thesis using st' a by simp
      qed
    qed
    show ?thesis using ok kept by simp
  qed
qed (use assms in \<open>simp_all add: method_call_def\<close>)

lemma func_configuration_data_heap:
  assumes "func_configuration_data st args kw = (st', r)"
  shows "(heap_ok st \<longrightarrow> heap_ok st')
         \<and> (heap_ok st \<and> heap st c = Some h \<longrightarrow> heap st' c = Some h)"
proof -
  have "st' = st
      \<or> st' = st\<lparr>heap := (heap st)(next_obj st \<mapsto> new_holder), next_obj := Suc (next_obj st)\<rparr>"
    using assms by (auto simp add: func_configuration_data_def split: option.splits if_splits)
  then show ?thesis
  proof
    assume "st' = st"
    then show ?thesis by simp
  next
    assume e: "st' = st\<lparr>heap := (heap st)(next_obj st \<mapsto> new_holder), next_obj := Suc (next_obj st)\<rparr>"
    have ok: "heap_ok st \<longrightarrow> heap_ok st'"
    proof
      assume o: "heap_ok st"
      show "heap_ok st'"
        unfolding heap_ok_def
      proof (intro allI impI)
        fix n
        assume "heap st' n \<noteq> None"
        then have "n = next_obj st \<or> heap st n \<noteq> None" using e by (simp split: if_splits)
        then have "n \<le> next_obj st" using o by (auto simp add: heap_ok_def less_imp_le)
        then show "n < next_obj st'" using e by simp
      qed
    qed
    have kept: "heap_ok st \<and> heap st c = Some h \<longrightarrow> heap st' c = Some h"
    proof
      assume a: "heap_ok st \<and> heap st c = Some h"
      then have "c < next_obj st" by (auto simp add: heap_ok_def)
      then show "heap st' c = Some h" using e a by simp
    qed
    show ?thesis using ok kept by simp
  qed
qed

lemma func_configure_file_heap_cases:
  assumes "func_configure_file W st args kw = (st', r)"
    and "P (heap st)"
    and "\<And>n h0. heap st n = Some h0 \<Longrightarrow> P ((heap st)(n \<mapsto> mark_used h0))"
  shows "P (heap st')"
  using assms
  by (auto simp add: func_configure_file_def Let_def
      split: option.splits if_splits sum.splits val.splits prod.splits
      dest!: configure_tail_frame)

lemma func_configure_file_heap:
  assumes "func_configure_file W st args kw = (st', r)"
  shows "(heap_ok st \<longrightarrow> heap_ok st')
         \<and> (heap st c = Some h \<and> used h \<longrightarrow> heap st' c = Some h)"
proof -
  have nx: "next_obj st' = next_obj st"
    using func_configure_file_frame [OF assms] by simp
  have ok: "heap_ok st \<longrightarrow> (\<forall>n. heap st' n \<noteq> None \<longrightarrow> n < next_obj st)"
    by (rule func_configure_file_heap_cases [OF assms]) (auto simp add: heap_ok_def)
  have kept: "heap st c = Some h \<and> used h \<longrightarrow> heap st' c = Some h"
    by (rule func_configure_file_heap_cases [OF assms]) (auto simp add: mark_used_idem)
  show ?thesis using ok kept nx by (simp add: heap_ok_def)
qed

lemma exec_heap:
  assumes "exec W st s = (st', r)" and "heap_ok st"
  shows "heap_ok st' \<and> (heap st c = Some h \<and> used h \<longrightarrow> heap st' c = Some h)"
proof (cases s)
  case (Call f args kw)
  have same: "heap st' = heap st \<and> next_obj st \<le> next_obj st' \<Longrightarrow> ?thesis"
    using assms(2) by (fastforce simp add: heap_ok_def)
  show ?thesis
  proof (cases f)
    case F_executable
    then show ?thesis using assms Call same by (auto dest!: discard_fst dest: build_target_frame)
  next
    case F_static_library
    then show ?thesis using assms Call same by (auto dest!: discard_fst dest: build_target_frame)
  next
    case F_shared_library
    then show ?thesis using assms Call same by (auto dest!: discard_fst dest: build_target_frame)
  next
    case F_jar
    then show ?thesis using assms Call same by (auto dest!: discard_fst dest: build_target_frame)
  next
    case F_build_target
    then show ?thesis using assms Call same by (auto dest!: discard_fst dest: func_build_target_frame)
  next
    case F_custom_target
    then show ?thesis using assms Call same by (auto dest!: discard_fst dest: func_custom_target_frame)
  next
    case F_run_target
    then show ?thesis using assms Call same by (auto dest!: discard_fst dest: func_run_target_frame)
  next
    case F_add_global_arguments
    then show ?thesis using assms Call same
      by (auto dest!: discard_fst dest: func_add_global_arguments_frame)
  next
    case F_subproject
    then show ?thesis using assms Call same by (auto dest!: discard_fst dest: func_subproject_frame)
  next
    case F_configuration_data
    then obtain q where "func_configuration_data st args kw = (st', q)"
      using assms Call by (auto dest!: discard_fst)
    from func_configuration_data_heap [OF this, of c h] assms(2) show ?thesis by simp
  next
    case F_configure_file
    then obtain q where "func_configure_file W st args kw = (st', q)"
      using assms Call by (auto dest!: discard_fst)
    from func_configure_file_heap [OF this, of c h] assms(2) show ?thesis by simp
  qed
next
  case (MethodCall nm obj m args kw)
  then obtain q where "method_call st nm obj m args kw = (st', q)"
    using assms by (auto dest!: discard_fst)
  from method_call_heap [OF this, of c h] assms(2) show ?thesis by simp
next
  case (ModuleCall v)
  then obtain q where "module_method_callback st v = (st', q)"
    using assms by (auto dest!: discard_fst)
  from module_method_callback_frame [OF this] assms(2) show ?thesis
    by (simp add: heap_ok_def)
qed

lemma run_heap:
  "run W st ss = (st', r) \<Longrightarrow> heap_ok st \<Longrightarrow>
   heap_ok st' \<and> (heap st c = Some h \<and> used h \<longrightarrow> heap st' c = Some h)"
proof (induction ss arbitrary: st)
  case Nil
  then show ?case by simp
next
  case (Cons s ss)
  obtain s1 r1 where e: "exec W st s = (s1, r1)" by (cases "exec W st s")
  note f = exec_heap [OF e Cons.prems(2), of c h]
  show ?case
  proof (cases r1)
    case (Inl x)
    then show ?thesis using Cons.prems e f by simp
  next
    case (Inr u)
    then have "run W s1 ss = (st', r)" using Cons.prems e by simp
    from Cons.IH [OF this] f show ?thesis by simp
  qed
qed

lemma new_interp_heap_ok: "heap_ok (new_interp d)"
  by (simp add: heap_ok_def new_interp_def)

lemma func_configure_file_marks_used:
  assumes "func_configure_file W st args kw = (st', Inr f)"
    and "kw ''configuration'' = Some (VObj c)"
  shows "\<exists>h. heap st c = Some h \<and> heap st' c = Some (mark_used h)"
  using assms
  by (auto simp add: func_configure_file_def Let_def configure_tail_def
      split: option.splits if_splits sum.splits val.splits prod.splits)

text \<open>
  C4. Let a script of a new interpreter end with a successful
  \<open>configure_file(..., configuration: c)\<close>. Then \<open>c\<close> is marked used, and after any
  further statements, whether they succeed or end in an exception, \<open>c\<close> is the same
  holder with the same values, and every call \<open>c.set(...)\<close> or \<open>c.set10(...)\<close> raises and
  returns the state unchanged. On a holder not yet used, \<open>set\<close> with a string key and a
  value stores the value; \<open>configuration_data()\<close> makes such a holder.
\<close>

theorem used_configuration_is_immutable:
  "(run W (new_interp d) (pre @ [Call F_configure_file a kw]) = (st1, Inr ())
      \<and> kw ''configuration'' = Some (VObj c) \<and> run W st1 post = (st2, r)
      \<and> (m = ''set'' \<or> m = ''set10'') \<longrightarrow>
      (\<exists>h. heap st1 c = Some h \<and> used h \<and> heap st2 c = Some h)
      \<and> method_call st2 nm (VObj c) m args kw'
          = (st2, Inl (InterpreterException
               (if length args \<noteq> 2 then ''Configuration set requires 2 arguments.''
                else ''Can not set values on configuration object that has been used.''))))
   \<and> (heap st c = Some h \<and> \<not> used h \<longrightarrow>
        method_call st nm (VObj c) ''set'' [VStr k, v] kw'
        = (st\<lparr>heap := (heap st)(c \<mapsto> h\<lparr>conf_values := (conf_values h)(k \<mapsto> v)\<rparr>)\<rparr>, Inr VNone))
   \<and> func_configuration_data st [] Map.empty
       = (st\<lparr>heap := (heap st)(next_obj st \<mapsto> \<lparr>used = False, conf_values = Map.empty\<rparr>),
             next_obj := Suc (next_obj st)\<rparr>,
          Inr (VObj (next_obj st)))"
proof (intro conjI impI)
  assume a: "run W (new_interp d) (pre @ [Call F_configure_file a kw]) = (st1, Inr ())
      \<and> kw ''configuration'' = Some (VObj c) \<and> run W st1 post = (st2, r)
      \<and> (m = ''set'' \<or> m = ''set10'')"
  obtain st0 r0 where p: "run W (new_interp d) pre = (st0, r0)"
    by (cases "run W (new_interp d) pre")
  have r0: "r0 = Inr ()" using a p by (cases r0) (simp_all add: run_append)
  then have "run W st0 [Call F_configure_file a kw] = (st1, Inr ())"
    using a p by (simp add: run_append)
  then have "discard (func_configure_file W st0 a kw) = (st1, Inr ())"
    by (auto split: prod.splits sum.splits)
  then obtain f where cf: "func_configure_file W st0 a kw = (st1, Inr f)"
    by (auto dest!: discard_ok)
  have ok0: "heap_ok st0" using run_heap [OF p new_interp_heap_ok] by simp
  obtain h0 where h0: "heap st0 c = Some h0" "heap st1 c = Some (mark_used h0)"
    using func_configure_file_marks_used [OF cf] a by blast
  have u: "used (mark_used h0)" by (simp add: mark_used_def)
  have ok1: "heap_ok st1" using func_configure_file_heap [OF cf] ok0 by simp
  have post: "run W st1 post = (st2, r)" using a by simp
  have h2: "heap st2 c = Some (mark_used h0)"
    using run_heap [OF post ok1, of c "mark_used h0"] h0 u by simp
  show "\<exists>h. heap st1 c = Some h \<and> used h \<and> heap st2 c = Some h"
    using h0 u h2 by blast
  have upd: "st2\<lparr>heap := (heap st2)(c \<mapsto> mark_used h0)\<rparr> = st2"
    using h2 by (simp add: map_upd_triv)
  show "method_call st2 nm (VObj c) m args kw'
          = (st2, Inl (InterpreterException
               (if length args \<noteq> 2 then ''Configuration set requires 2 arguments.''
                else ''Can not set values on configuration object that has been used.'')))"
    using a h2 u upd
    by (auto simp add: method_call_def holder_method_call_def set_method_def set10_method_def
        validate_args_used)
next
  assume "heap st c = Some h \<and> \<not> used h"
  then show "method_call st nm (VObj c) ''set'' [VStr k, v] kw'
        = (st\<lparr>heap := (heap st)(c \<mapsto> h\<lparr>conf_values := (conf_values h)(k \<mapsto> v)\<rparr>)\<rparr>, Inr VNone)"
    by (simp add: method_call_def holder_method_call_def set_method_def validate_args_def)
next
  show "func_configuration_data st [] Map.empty
       = (st\<lparr>heap := (heap st)(next_obj st \<mapsto> \<lparr>used = False, conf_values = Map.empty\<rparr>),
             next_obj := Suc (next_obj st)\<rparr>,
          Inr (VObj (next_obj st)))"
    by (simp add: func_configuration_data_def check_noKwargs_def new_holder_def)
qed

theorem used_configuration_is_immutable_witness:
  "snd (run sample_world (new_interp ''subprojects'') ([Call F_configuration_data [] Map.empty, MethodCall ''conf'' (VObj 0) ''set'' [VStr ''A'', VInt 1] Map.empty] @ [Call F_configure_file [] [''input'' \<mapsto> VStr ''in.h.in'', ''output'' \<mapsto> VStr ''out.h'', ''configuration'' \<mapsto> VObj 0]])) = Inr ()
   \<and> heap (fst (run sample_world (new_interp ''subprojects'') ([Call F_configuration_data [] Map.empty, MethodCall ''conf'' (VObj 0) ''set'' [VStr ''A'', VInt 1] Map.empty] @ [Call F_configure_file [] [''input'' \<mapsto> VStr ''in.h.in'', ''output'' \<mapsto> VStr ''out.h'', ''configuration'' \<mapsto> VObj 0]]))) 0
       = Some \<lparr>used = True, conf_values = [''A'' \<mapsto> VInt 1]\<rparr>
   \<and> method_call (fst (run sample_world (new_interp ''subprojects'') ([Call F_configuration_data [] Map.empty, MethodCall ''conf'' (VObj 0) ''set'' [VStr ''A'', VInt 1] Map.empty] @ [Call F_configure_file [] [''input'' \<mapsto> VStr ''in.h.in'', ''output'' \<mapsto> VStr ''out.h'', ''configuration'' \<mapsto> VObj 0]])))
         ''conf'' (VObj 0) ''set'' [VStr ''B'', VInt 2] Map.empty
       = (fst (run sample_world (new_interp ''subprojects'') ([Call F_configuration_data [] Map.empty, MethodCall ''conf'' (VObj 0) ''set'' [VStr ''A'', VInt 1] Map.empty] @ [Call F_configure_file [] [''input'' \<mapsto> VStr ''in.h.in'', ''output'' \<mapsto> VStr ''out.h'', ''configuration'' \<mapsto> VObj 0]])),
          Inl (InterpreterException ''Can not set values on configuration object that has been used.''))
   \<and> method_call (fst (run sample_world (new_interp ''subprojects'') ([Call F_configuration_data [] Map.empty, MethodCall ''conf'' (VObj 0) ''set'' [VStr ''A'', VInt 1] Map.empty] @ [Call F_configure_file [] [''input'' \<mapsto> VStr ''in.h.in'', ''output'' \<mapsto> VStr ''out.h'', ''configuration'' \<mapsto> VObj 0]])))
         ''conf'' (VObj 0) ''set10'' [VStr ''B'', VBool True] Map.empty
       = (fst (run sample_world (new_interp ''subprojects'') ([Call F_configuration_data [] Map.empty, MethodCall ''conf'' (VObj 0) ''set'' [VStr ''A'', VInt 1] Map.empty] @ [Call F_configure_file [] [''input'' \<mapsto> VStr ''in.h.in'', ''output'' \<mapsto> VStr ''out.h'', ''configuration'' \<mapsto> VObj 0]])),
          Inl (InterpreterException ''Can not set values on configuration object that has been used.''))
   \<and> heap (fst (func_configuration_data (new_interp ''subprojects'') [] Map.empty)) 0
       = Some \<lparr>used = False, conf_values = Map.empty\<rparr>
   \<and> snd (method_call (fst (func_configuration_data (new_interp ''subprojects'') [] Map.empty))
         ''conf'' (VObj 0) ''set'' [VStr ''A'', VInt 1] Map.empty) = Inr VNone
   \<and> heap (fst (method_call (fst (func_configuration_data (new_interp ''subprojects'') [] Map.empty))
         ''conf'' (VObj 0) ''set'' [VStr ''A'', VInt 1] Map.empty)) 0
       = Some \<lparr>used = False, conf_values = [''A'' \<mapsto> VInt 1]\<rparr>"
proof -
  have run1: "run sample_world (new_interp ''subprojects'') ([Call F_configuration_data [] Map.empty, MethodCall ''conf'' (VObj 0) ''set'' [VStr ''A'', VInt 1] Map.empty] @ [Call F_configure_file [] [''input'' \<mapsto> VStr ''in.h.in'', ''output'' \<mapsto> VStr ''out.h'', ''configuration'' \<mapsto> VObj 0]])
      = (fst (run sample_world (new_interp ''subprojects'') ([Call F_configuration_data [] Map.empty, MethodCall ''conf'' (VObj 0) ''set'' [VStr ''A'', VInt 1] Map.empty] @ [Call F_configure_file [] [''input'' \<mapsto> VStr ''in.h.in'', ''output'' \<mapsto> VStr ''out.h'', ''configuration'' \<mapsto> VObj 0]])), Inr ())"
    by (simp add: eval_defs)
  have run2: "run sample_world (fst (run sample_world (new_interp ''subprojects'') ([Call F_configuration_data [] Map.empty, MethodCall ''conf'' (VObj 0) ''set'' [VStr ''A'', VInt 1] Map.empty] @ [Call F_configure_file [] [''input'' \<mapsto> VStr ''in.h.in'', ''output'' \<mapsto> VStr ''out.h'', ''configuration'' \<mapsto> VObj 0]]))) []
      = (fst (run sample_world (new_interp ''subprojects'') ([Call F_configuration_data [] Map.empty, MethodCall ''conf'' (VObj 0) ''set'' [VStr ''A'', VInt 1] Map.empty] @ [Call F_configure_file [] [''input'' \<mapsto> VStr ''in.h.in'', ''output'' \<mapsto> VStr ''out.h'', ''configuration'' \<mapsto> VObj 0]])), Inr ())"
    by simp
  have h1: "heap (fst (run sample_world (new_interp ''subprojects'') ([Call F_configuration_data [] Map.empty, MethodCall ''conf'' (VObj 0) ''set'' [VStr ''A'', VInt 1] Map.empty] @ [Call F_configure_file [] [''input'' \<mapsto> VStr ''in.h.in'', ''output'' \<mapsto> VStr ''out.h'', ''configuration'' \<mapsto> VObj 0]]))) 0
       = Some \<lparr>used = True, conf_values = [''A'' \<mapsto> VInt 1]\<rparr>"
    by (simp add: eval_defs)
  have h0: "heap (fst (func_configuration_data (new_interp ''subprojects'') [] Map.empty)) 0
       = Some \<lparr>used = False, conf_values = Map.empty\<rparr>"
    by (simp add: eval_defs)
  note t1 = used_configuration_is_immutable [where W = sample_world and d = "''subprojects''"
      and pre = "[Call F_configuration_data [] Map.empty, MethodCall ''conf'' (VObj 0) ''set'' [VStr ''A'', VInt 1] Map.empty]"
      and a = "[]" and kw = "[''input'' \<mapsto> VStr ''in.h.in'', ''output'' \<mapsto> VStr ''out.h'', ''configuration'' \<mapsto> VObj 0]"
      and ?st1.0 = "fst (run sample_world (new_interp ''subprojects'') ([Call F_configuration_data [] Map.empty, MethodCall ''conf'' (VObj 0) ''set'' [VStr ''A'', VInt 1] Map.empty] @ [Call F_configure_file [] [''input'' \<mapsto> VStr ''in.h.in'', ''output'' \<mapsto> VStr ''out.h'', ''configuration'' \<mapsto> VObj 0]]))"
      and c = 0 and post = "[]"
      and ?st2.0 = "fst (run sample_world (new_interp ''subprojects'') ([Call F_configuration_data [] Map.empty, MethodCall ''conf'' (VObj 0) ''set'' [VStr ''A'', VInt 1] Map.empty] @ [Call F_configure_file [] [''input'' \<mapsto> VStr ''in.h.in'', ''output'' \<mapsto> VStr ''out.h'', ''configuration'' \<mapsto> VObj 0]]))"
      and r = "Inr ()" and m = "''set''" and nm = "''conf''"
      and args = "[VStr ''B'', VInt 2]" and kw' = Map.empty
      and st = "fst (func_configuration_data (new_interp ''subprojects'') [] Map.empty)"
      and h = "\<lparr>used = False, conf_values = Map.empty\<rparr>" and k = "''A''" and v = "VInt 1"]
  note t2 = used_configuration_is_immutable [where W = sample_world and d = "''subprojects''"
      and pre = "[Call F_configuration_data [] Map.empty, MethodCall ''conf'' (VObj 0) ''set'' [VStr ''A'', VInt 1] Map.empty]"
      and a = "[]" and kw = "[''input'' \<mapsto> VStr ''in.h.in'', ''output'' \<mapsto> VStr ''out.h'', ''configuration'' \<mapsto> VObj 0]"
      and ?st1.0 = "fst (run sample_world (new_interp ''subprojects'') ([Call F_configuration_data [] Map.empty, MethodCall ''conf'' (VObj 0) ''set'' [VStr ''A'', VInt 1] Map.empty] @ [Call F_configure_file [] [''input'' \<mapsto> VStr ''in.h.in'', ''output'' \<mapsto> VStr ''out.h'', ''configuration'' \<mapsto> VObj 0]]))"
      and c = 0 and post = "[]"
      and ?st2.0 = "fst (run sample_world (new_interp ''subprojects'') ([Call F_configuration_data [] Map.empty, MethodCall ''conf'' (VObj 0) ''set'' [VStr ''A'', VInt 1] Map.empty] @ [Call F_configure_file [] [''input'' \<mapsto> VStr ''in.h.in'', ''output'' \<mapsto> VStr ''out.h'', ''configuration'' \<mapsto> VObj 0]]))"
      and r = "Inr ()" and m = "''set10''" and nm = "''conf''"
      and args = "[VStr ''B'', VBool True]" and kw' = Map.empty
      and st = "fst (func_configuration_data (new_interp ''subprojects'') [] Map.empty)"
      and h = "\<lparr>used = False, conf_values = Map.empty\<rparr>" and k = "''A''" and v = "VInt 1"]
  have c1: "method_call (fst (run sample_world (new_interp ''subprojects'') ([Call F_configuration_data [] Map.empty, MethodCall ''conf'' (VObj 0) ''set'' [VStr ''A'', VInt 1] Map.empty] @ [Call F_configure_file [] [''input'' \<mapsto> VStr ''in.h.in'', ''output'' \<mapsto> VStr ''out.h'', ''configuration'' \<mapsto> VObj 0]])))
         ''conf'' (VObj 0) ''set'' [VStr ''B'', VInt 2] Map.empty
       = (fst (run sample_world (new_interp ''subprojects'') ([Call F_configuration_data [] Map.empty, MethodCall ''conf'' (VObj 0) ''set'' [VStr ''A'', VInt 1] Map.empty] @ [Call F_configure_file [] [''input'' \<mapsto> VStr ''in.h.in'', ''output'' \<mapsto> VStr ''out.h'', ''configuration'' \<mapsto> VObj 0]])),
          Inl (InterpreterException ''Can not set values on configuration object that has been used.''))"
    using t1 run1 run2 by simp
  have c2: "method_call (fst (run sample_world (new_interp ''subprojects'') ([Call F_configuration_data [] Map.empty, MethodCall ''conf'' (VObj 0) ''set'' [VStr ''A'', VInt 1] Map.empty] @ [Call F_configure_file [] [''input'' \<mapsto> VStr ''in.h.in'', ''output'' \<mapsto> VStr ''out.h'', ''configuration'' \<mapsto> VObj 0]])))
         ''conf'' (VObj 0) ''set10'' [VStr ''B'', VBool True] Map.empty
       = (fst (run sample_world (new_interp ''subprojects'') ([Call F_configuration_data [] Map.empty, MethodCall ''conf'' (VObj 0) ''set'' [VStr ''A'', VInt 1] Map.empty] @ [Call F_configure_file [] [''input'' \<mapsto> VStr ''in.h.in'', ''output'' \<mapsto> VStr ''out.h'', ''configuration'' \<mapsto> VObj 0]])),
          Inl (InterpreterException ''Can not set values on configuration object that has been used.''))"
    using t2 run1 run2 by simp
  have c3: "method_call (fst (func_configuration_data (new_interp ''subprojects'') [] Map.empty))
         ''conf'' (VObj 0) ''set'' [VStr ''A'', VInt 1] Map.empty
       = ((fst (func_configuration_data (new_interp ''subprojects'') [] Map.empty))
            \<lparr>heap := (heap (fst (func_configuration_data (new_interp ''subprojects'') [] Map.empty)))
               (0 \<mapsto> \<lparr>used = False, conf_values = Map.empty\<rparr>
                       \<lparr>conf_values := (conf_values \<lparr>used = False, conf_values = Map.empty\<rparr>)
                                           (''A'' \<mapsto> VInt 1)\<rparr>)\<rparr>,
          Inr VNone)"
    using t1 h0 by simp
  show ?thesis
    using run1 h1 c1 c2 h0 c3 by (simp add: eval_defs)
qed

section \<open>Properties of target registration\<close>

lemma add_target_rejects_reserved:
  "name \<in> forbidden_target_names W \<Longrightarrow>
   add_target W st (VStr name) tobj
   = (st, Inl (InvalidArguments (''Target name '' @ dq @ name @ dq
                 @ '' is reserved for Meson'' @ sq @ ''s internal use. Please rename.'')))"
  by (simp add: add_target_def)

lemma add_target_rejects_duplicate_id:
  "\<not> name_reserved (forbidden_target_names W) name \<Longrightarrow> targets (build st) (get_id W tobj) = Some t \<Longrightarrow>
   add_target W st name tobj
   = (st, Inl (InvalidCode (''Tried to create target '' @ dq @ py_str name @ dq
                 @ '', but a target of that name already exists.'')))"
  by (simp add: add_target_def)

lemma add_target_keeps_ids:
  assumes "add_target W st name tobj = (st', r)"
    and "\<forall>k t. targets (build st) k = Some t \<longrightarrow> get_id W t = k"
  shows "\<forall>k t. targets (build st') k = Some t \<longrightarrow> get_id W t = k"
  using assms by (auto simp add: add_target_def Let_def split: if_splits)

lemma ids_unique_when_keyed_by_id:
  assumes "\<forall>k t. targets b k = Some t \<longrightarrow> get_id W t = k"
    and "targets b k1 = Some t1" and "targets b k2 = Some t2" and "t1 \<noteq> t2"
  shows "get_id W t1 \<noteq> get_id W t2"
  using assms by auto

text \<open>
  C1. The targets a module returns do not go through \<open>add_target\<close>:
  \<open>module_method_callback\<close> stores them under their bare name, without the reserved-name
  check and without looking for their id. In the sample world, after
  \<open>gnome.compile_resources('res', ...)\<close> has returned the custom targets \<open>res_c\<close> and
  \<open>res_h\<close>, the statement \<open>custom_target('res_c', output: 'other.c')\<close> succeeds, and the
  build holds two different targets with the one id \<open>res_c@cus\<close>.
\<close>

theorem module_targets_bypass_add_target:
  "snd (run sample_world (new_interp ''subprojects'') [ModuleCall (MList [MTarget \<lparr>t_name = ''res_c'', t_type = CustomTarget, t_subdir = [], t_subproject = [], t_rest = 1\<rparr>, MTarget \<lparr>t_name = ''res_h'', t_type = CustomTarget, t_subdir = [], t_subproject = [], t_rest = 2\<rparr>]), Call F_custom_target [VStr ''res_c''] [''output'' \<mapsto> VStr ''other.c'']]) = Inr ()
   \<and> targets (build (fst (run sample_world (new_interp ''subprojects'') [ModuleCall (MList [MTarget \<lparr>t_name = ''res_c'', t_type = CustomTarget, t_subdir = [], t_subproject = [], t_rest = 1\<rparr>, MTarget \<lparr>t_name = ''res_h'', t_type = CustomTarget, t_subdir = [], t_subproject = [], t_rest = 2\<rparr>]), Call F_custom_target [VStr ''res_c''] [''output'' \<mapsto> VStr ''other.c'']]))) ''res_c''
       = Some \<lparr>t_name = ''res_c'', t_type = CustomTarget, t_subdir = [], t_subproject = [], t_rest = 1\<rparr>
   \<and> targets (build (fst (run sample_world (new_interp ''subprojects'') [ModuleCall (MList [MTarget \<lparr>t_name = ''res_c'', t_type = CustomTarget, t_subdir = [], t_subproject = [], t_rest = 1\<rparr>, MTarget \<lparr>t_name = ''res_h'', t_type = CustomTarget, t_subdir = [], t_subproject = [], t_rest = 2\<rparr>]), Call F_custom_target [VStr ''res_c''] [''output'' \<mapsto> VStr ''other.c'']]))) ''res_c@cus''
       = Some \<lparr>t_name = ''res_c'', t_type = CustomTarget, t_subdir = [], t_subproject = [], t_rest = 7\<rparr>
   \<and> \<lparr>t_name = ''res_c'', t_type = CustomTarget, t_subdir = [], t_subproject = [], t_rest = 1\<rparr>
       \<noteq> \<lparr>t_name = ''res_c'', t_type = CustomTarget, t_subdir = [], t_subproject = [], t_rest = 7\<rparr>
   \<and> get_id sample_world \<lparr>t_name = ''res_c'', t_type = CustomTarget, t_subdir = [], t_subproject = [], t_rest = 1\<rparr>
       = get_id sample_world \<lparr>t_name = ''res_c'', t_type = CustomTarget, t_subdir = [], t_subproject = [], t_rest = 7\<rparr>"
  by (simp add: eval_defs)

section \<open>Properties of the wrap resolver\<close>

lemma fetch_simps:
  "get_data W url = Inr bytes \<Longrightarrow> fetch W fs url = (fs\<lparr>trace := trace fs @ [EvDownload url]\<rparr>, Inr bytes)"
  "get_data W url = Inl e \<Longrightarrow> fetch W fs url = (fs\<lparr>trace := trace fs @ [EvDownload url]\<rparr>, Inl e)"
  by (simp_all add: fetch_def)

lemma download_hash_mismatch:
  assumes "pd_values p ''source_filename'' = Some sfn"
    and "\<not> path_exists fs (path_join cachedir sfn)"
    and "pd_values p ''source_url'' = Some url"
    and "get_data W url = Inr bytes"
    and "pd_values p ''source_hash'' = Some h"
    and "get_hash W bytes \<noteq> h"
  shows "download W cachedir fs p name
         = (fs\<lparr>trace := trace fs @ [EvDownload url]\<rparr>,
            Inl (RuntimeError (hash_msg ''source'' name h (get_hash W bytes) @ ''.'')))"
  using assms by (simp add: download_def pd_get_def fetch_simps Let_def)

lemma download_success_has_hash:
  assumes "pd_values p ''source_filename'' = Some sfn"
    and "\<not> path_exists fs (path_join cachedir sfn)"
    and "download W cachedir fs p name = (fs', Inr u)"
  shows "\<exists>url bytes. pd_values p ''source_url'' = Some url \<and> get_data W url = Inr bytes
           \<and> pd_values p ''source_hash'' = Some (get_hash W bytes)
           \<and> files fs' (path_join cachedir sfn) = Some bytes"
proof -
  obtain url where url: "pd_values p ''source_url'' = Some url"
    using assms by (cases "pd_values p ''source_url''") (auto simp add: download_def pd_get_def Let_def)
  obtain bytes where bytes: "get_data W url = Inr bytes"
    using assms url by (cases "get_data W url") (auto simp add: download_def pd_get_def fetch_def Let_def)
  obtain h where h: "pd_values p ''source_hash'' = Some h"
    using assms url bytes
    by (cases "pd_values p ''source_hash''") (auto simp add: download_def pd_get_def fetch_simps Let_def)
  have eq: "get_hash W bytes = h"
    using assms url bytes h by (auto simp add: download_def pd_get_def fetch_simps Let_def split: if_splits)
  have "files fs' (path_join cachedir sfn) = Some bytes"
    using assms url bytes h eq
    by (auto simp add: download_def pd_get_def fetch_simps write_file_def Let_def
        split: if_splits prod.splits sum.splits)
  then show ?thesis using url bytes h eq by simp
qed

lemma sample_wrap_parses:
  "PackageDefinition_init (sample_wrap_text ''0000'') = Inr (sample_package ''0000'')"
  by (simp add: PackageDefinition_init_def sample_wrap_text_def sample_package_def nl_def
      py_strip_def isspace_def Let_def)


text \<open>
  C2. Take a wrap file of type \<open>file\<close> whose source archive is not in the package cache
  (the cache directory exists or can be made, and the archive's path is not the cache
  directory itself), with a \<open>source_url\<close> that delivers bytes and a \<open>source_hash\<close>. If
  the SHA-256 of the bytes differs from \<open>source_hash\<close>, resolving the subproject raises
  the \<open>Incorrect hash for source\<close> error; no file has been written, and the resolver
  has done nothing but make the cache directory, if it was missing, and download:
  nothing was unpacked. And whenever the download step returns without an exception for
  an archive that was not cached, the bytes it stored in the cache are the downloaded
  ones and their SHA-256 is \<open>source_hash\<close>.
\<close>

theorem hash_mismatch_stops_before_cache_and_extraction:
  "(files fs (path_join root (name @ ''.wrap'')) = Some contents
      \<and> PackageDefinition_init contents = Inr p \<and> pd_type p = ''file''
      \<and> (isdir fs (path_join root ''packagecache'') \<or> \<not> path_exists fs (path_join root ''packagecache''))
      \<and> pd_values p ''source_filename'' = Some sfn
      \<and> \<not> path_exists fs (path_join (path_join root ''packagecache'') sfn)
      \<and> path_join (path_join root ''packagecache'') sfn \<noteq> path_join root ''packagecache''
      \<and> pd_values p ''source_url'' = Some url \<and> get_data W url = Inr bytes
      \<and> pd_values p ''source_hash'' = Some h \<and> get_hash W bytes \<noteq> h \<longrightarrow>
      snd (resolve_wrap W root fs name)
        = Inl (RuntimeError (hash_msg ''source'' name h (get_hash W bytes) @ ''.''))
      \<and> files (fst (resolve_wrap W root fs name)) = files fs
      \<and> trace (fst (resolve_wrap W root fs name))
        = trace fs
          @ (if isdir fs (path_join root ''packagecache'') then []
             else [EvMkdir (path_join root ''packagecache'')])
          @ [EvDownload url])
   \<and> (pd_values p ''source_filename'' = Some sfn \<and> \<not> path_exists fs (path_join cachedir sfn)
      \<and> download W cachedir fs p name = (fs', Inr ()) \<longrightarrow>
      (\<exists>url bytes. pd_values p ''source_url'' = Some url \<and> get_data W url = Inr bytes
         \<and> pd_values p ''source_hash'' = Some (get_hash W bytes)
         \<and> files fs' (path_join cachedir sfn) = Some bytes))"
proof (intro conjI impI)
  assume a: "files fs (path_join root (name @ ''.wrap'')) = Some contents
      \<and> PackageDefinition_init contents = Inr p \<and> pd_type p = ''file''
      \<and> (isdir fs (path_join root ''packagecache'') \<or> \<not> path_exists fs (path_join root ''packagecache''))
      \<and> pd_values p ''source_filename'' = Some sfn
      \<and> \<not> path_exists fs (path_join (path_join root ''packagecache'') sfn)
      \<and> path_join (path_join root ''packagecache'') sfn \<noteq> path_join root ''packagecache''
      \<and> pd_values p ''source_url'' = Some url \<and> get_data W url = Inr bytes
      \<and> pd_values p ''source_hash'' = Some h \<and> get_hash W bytes \<noteq> h"
  define cachedir where "cachedir = path_join root ''packagecache''"
  define fs1 where "fs1 = (if isdir fs cachedir then fs
      else fs\<lparr>dirs := insert cachedir (dirs fs), trace := trace fs @ [EvMkdir cachedir]\<rparr>)"
  have mk: "(if \<not> isdir fs cachedir then os_mkdir fs cachedir else (fs, Inr ())) = (fs1, Inr ())"
    using a by (auto simp add: fs1_def cachedir_def os_mkdir_def)
  have ne: "path_join cachedir sfn \<noteq> cachedir"
    using a by (simp add: cachedir_def)
  have miss1: "\<not> path_exists fs1 (path_join cachedir sfn)"
    using a ne by (auto simp add: fs1_def cachedir_def path_exists_def isdir_def)
  have dl: "download W cachedir fs1 p name
         = (fs1\<lparr>trace := trace fs1 @ [EvDownload url]\<rparr>,
            Inl (RuntimeError (hash_msg ''source'' name h (get_hash W bytes) @ ''.'')))"
    using download_hash_mismatch [OF _ miss1, of p url W bytes h name] a by simp
  have res: "resolve_wrap W root fs name
         = (fs1\<lparr>trace := trace fs1 @ [EvDownload url]\<rparr>,
            Inl (RuntimeError (hash_msg ''source'' name h (get_hash W bytes) @ ''.'')))"
    using a mk dl by (simp add: resolve_wrap_def Let_def cachedir_def [symmetric])
  show "snd (resolve_wrap W root fs name)
        = Inl (RuntimeError (hash_msg ''source'' name h (get_hash W bytes) @ ''.''))"
    using res by simp
  show "files (fst (resolve_wrap W root fs name)) = files fs"
    using res by (simp add: fs1_def)
  show "trace (fst (resolve_wrap W root fs name))
        = trace fs
          @ (if isdir fs (path_join root ''packagecache'') then []
             else [EvMkdir (path_join root ''packagecache'')])
          @ [EvDownload url]"
    using res by (simp add: fs1_def cachedir_def)
next
  assume "pd_values p ''source_filename'' = Some sfn \<and> \<not> path_exists fs (path_join cachedir sfn)
      \<and> download W cachedir fs p name = (fs', Inr ())"
  then show "\<exists>url bytes. pd_values p ''source_url'' = Some url \<and> get_data W url = Inr bytes
         \<and> pd_values p ''source_hash'' = Some (get_hash W bytes)
         \<and> files fs' (path_join cachedir sfn) = Some bytes"
    using download_success_has_hash [of p sfn fs cachedir W name fs' "()"] by simp
qed

theorem hash_mismatch_stops_before_cache_and_extraction_witness:
  "snd (resolve_wrap sample_wrap_world ''subprojects'' (sample_fs ''0000'') ''zlib'')
     = Inl (RuntimeError (hash_msg ''source'' ''zlib'' ''0000'' ''zlib-bytes'' @ ''.''))
   \<and> files (fst (resolve_wrap sample_wrap_world ''subprojects'' (sample_fs ''0000'') ''zlib''))
     = files (sample_fs ''0000'')
   \<and> trace (fst (resolve_wrap sample_wrap_world ''subprojects'' (sample_fs ''0000'') ''zlib''))
     = [EvMkdir ''subprojects/packagecache'', EvDownload ''https://example.org/zlib.tar.gz'']
   \<and> download sample_wrap_world ''subprojects/packagecache''
         \<lparr>files = Map.empty, dirs = {''subprojects/packagecache''}, trace = []\<rparr>
         (sample_package ''zlib-bytes'') ''zlib''
     = (\<lparr>files = [''subprojects/packagecache/zlib.tar.gz'' \<mapsto> ''zlib-bytes''],
          dirs = {''subprojects/packagecache''},
          trace = [EvDownload ''https://example.org/zlib.tar.gz'',
                   EvWrite ''subprojects/packagecache/zlib.tar.gz'' ''zlib-bytes'']\<rparr>, Inr ())"
proof -
  have d: "download sample_wrap_world ''subprojects/packagecache''
         \<lparr>files = Map.empty, dirs = {''subprojects/packagecache''}, trace = []\<rparr>
         (sample_package ''zlib-bytes'') ''zlib''
     = (\<lparr>files = [''subprojects/packagecache/zlib.tar.gz'' \<mapsto> ''zlib-bytes''],
          dirs = {''subprojects/packagecache''},
          trace = [EvDownload ''https://example.org/zlib.tar.gz'',
                   EvWrite ''subprojects/packagecache/zlib.tar.gz'' ''zlib-bytes'']\<rparr>, Inr ())"
    by (simp add: download_def sample_package_def sample_wrap_world_def pd_get_def fetch_def
        has_patch_def write_file_def path_exists_def path_join_def Let_def)
  show ?thesis
    using d sample_wrap_parses
      hash_mismatch_stops_before_cache_and_extraction [where fs = "sample_fs ''0000''"
        and root = "''subprojects''" and name = "''zlib''" and contents = "sample_wrap_text ''0000''"
        and p = "sample_package ''0000''" and sfn = "''zlib.tar.gz''"
        and url = "''https://example.org/zlib.tar.gz''" and W = sample_wrap_world
        and bytes = "''zlib-bytes''" and h = "''0000''" and cachedir = "''subprojects/packagecache''"
        and fs' = "\<lparr>files = [''subprojects/packagecache/zlib.tar.gz'' \<mapsto> ''zlib-bytes''],
          dirs = {''subprojects/packagecache''},
          trace = [EvDownload ''https://example.org/zlib.tar.gz'',
                   EvWrite ''subprojects/packagecache/zlib.tar.gz'' ''zlib-bytes'']\<rparr>"]
    by (simp add: sample_fs_def sample_package_def sample_wrap_world_def path_join_def
        path_exists_def isdir_def)
qed

lemma place_members_trace: "trace (place_members dir ms fs) = trace fs"
  by (induction dir ms fs rule: place_members.induct) simp_all

lemma unpack_archive_trace:
  "unpack_archive W fs filename dir = (fs', r) \<Longrightarrow>
   trace fs' = trace fs @ [EvUnpack filename (files fs filename) dir]"
  by (auto simp add: unpack_archive_def Let_def place_members_trace split: option.splits sum.splits)

lemma unpack_archive_indep:
  "unpack_archive (W\<lparr>get_data := g, get_hash := s\<rparr>) fs filename dir = unpack_archive W fs filename dir"
  by (simp add: unpack_archive_def Let_def cong: option.case_cong sum.case_cong)

lemma extract_package_indep:
  "extract_package (W\<lparr>get_data := g, get_hash := s\<rparr>) root fs p = extract_package W root fs p"
  by (simp add: extract_package_def unpack_archive_indep Let_def
      cong: option.case_cong sum.case_cong prod.case_cong if_cong)

lemma extract_package_no_download:
  assumes "extract_package W root fs p = (fs', r)"
  shows "\<exists>new. trace fs' = trace fs @ new \<and> (\<forall>e \<in> set new. \<not> is_download e)"
proof -
  have mk: "\<And>f d f1 q. os_mkdir f d = (f1, q) \<Longrightarrow>
      trace f1 = trace f \<or> trace f1 = trace f @ [EvMkdir d]"
    by (auto simp add: os_mkdir_def split: if_splits)
  show ?thesis
    using assms
    by (auto simp add: extract_package_def Let_def pd_get_def
        split: option.splits sum.splits prod.splits if_splits
        dest!: unpack_archive_trace mk)
qed

lemma download_cached:
  "pd_values p ''source_filename'' = Some sfn \<Longrightarrow> path_exists fs (path_join cachedir sfn) \<Longrightarrow>
   download W cachedir fs p name = (fs, Inr ())"
  by (simp add: download_def pd_get_def Let_def)


text \<open>
  C10. If a file or directory with the descriptor's \<open>source_filename\<close> exists in the
  package cache, \<open>download\<close> returns at once and leaves everything as it is. Resolving
  such a wrap of type \<open>file\<close> gives the same outcome whatever the network delivers and
  whatever the hash function computes, and downloads nothing: the cached bytes are
  used unchecked, and no hash mismatch can be raised.
\<close>

theorem cached_archive_is_not_checked:
  "(pd_values p ''source_filename'' = Some sfn \<and> path_exists fs (path_join cachedir sfn) \<longrightarrow>
      download W cachedir fs p name = (fs, Inr ()))
   \<and> (files fs (path_join root (name @ ''.wrap'')) = Some contents
      \<and> PackageDefinition_init contents = Inr p \<and> pd_type p = ''file''
      \<and> pd_values p ''source_filename'' = Some sfn
      \<and> path_exists fs (path_join (path_join root ''packagecache'') sfn) \<longrightarrow>
      resolve_wrap (W\<lparr>get_data := g, get_hash := s\<rparr>) root fs name = resolve_wrap W root fs name
      \<and> (\<exists>new. trace (fst (resolve_wrap W root fs name)) = trace fs @ new
            \<and> (\<forall>e \<in> set new. \<not> is_download e)))"
proof (intro conjI impI)
  assume "pd_values p ''source_filename'' = Some sfn \<and> path_exists fs (path_join cachedir sfn)"
  then show "download W cachedir fs p name = (fs, Inr ())"
    by (simp add: download_cached)
next
  assume a: "files fs (path_join root (name @ ''.wrap'')) = Some contents
      \<and> PackageDefinition_init contents = Inr p \<and> pd_type p = ''file''
      \<and> pd_values p ''source_filename'' = Some sfn
      \<and> path_exists fs (path_join (path_join root ''packagecache'') sfn)"
  define cachedir where "cachedir = path_join root ''packagecache''"
  obtain fs1 r1 where mk: "(if \<not> isdir fs cachedir then os_mkdir fs cachedir else (fs, Inr ())) = (fs1, r1)"
    by (cases "if \<not> isdir fs cachedir then os_mkdir fs cachedir else (fs, Inr ())")
  have tr1: "trace fs1 = trace fs \<or> trace fs1 = trace fs @ [EvMkdir cachedir]"
    using mk by (auto simp add: os_mkdir_def split: if_splits)
  have ex1: "path_exists fs1 (path_join cachedir sfn)"
    using mk a by (auto simp add: os_mkdir_def path_exists_def cachedir_def split: if_splits)
  have dl: "\<And>V. download V cachedir fs1 p name = (fs1, Inr ())"
    using download_cached [OF _ ex1] a by simp
  obtain fs2 r2 where ex: "extract_package W root fs1 p = (fs2, r2)"
    by (cases "extract_package W root fs1 p")
  have res: "\<And>V. unpack V = unpack W \<Longrightarrow> get_git V = get_git W \<Longrightarrow>
      extract_package V root fs1 p = (fs2, r2) \<Longrightarrow>
      fst (resolve_wrap V root fs name) = (case r1 of Inl e \<Rightarrow> fs1 | Inr u \<Rightarrow> fs2)"
    using a mk dl
    by (auto simp add: resolve_wrap_def Let_def cachedir_def [symmetric]
        split: sum.splits prod.splits)
  show "resolve_wrap (W\<lparr>get_data := g, get_hash := s\<rparr>) root fs name = resolve_wrap W root fs name"
    using a mk dl
    by (simp add: resolve_wrap_def Let_def cachedir_def [symmetric] extract_package_indep
        cong: option.case_cong sum.case_cong prod.case_cong if_cong)
  obtain new where new: "trace fs2 = trace fs1 @ new" "\<forall>e \<in> set new. \<not> is_download e"
    using extract_package_no_download [OF ex] by blast
  have f: "fst (resolve_wrap W root fs name) = (case r1 of Inl e \<Rightarrow> fs1 | Inr u \<Rightarrow> fs2)"
    using res [of W] ex by simp
  show "\<exists>new. trace (fst (resolve_wrap W root fs name)) = trace fs @ new
            \<and> (\<forall>e \<in> set new. \<not> is_download e)"
  proof (cases r1)
    case (Inl e)
    then have "trace (fst (resolve_wrap W root fs name)) = trace fs1" using f by simp
    then show ?thesis using tr1 by auto
  next
    case (Inr u)
    then have t: "trace (fst (resolve_wrap W root fs name)) = trace fs1 @ new" using f new by simp
    show ?thesis
    proof (rule disjE [OF tr1])
      assume "trace fs1 = trace fs"
      then show ?thesis using t new by auto
    next
      assume "trace fs1 = trace fs @ [EvMkdir cachedir]"
      then have "trace (fst (resolve_wrap W root fs name)) = trace fs @ (EvMkdir cachedir # new)"
        using t by simp
      moreover have "\<forall>e \<in> set (EvMkdir cachedir # new). \<not> is_download e" using new by simp
      ultimately show ?thesis by blast
    qed
  qed
qed

theorem cached_archive_is_not_checked_witness:
  "get_hash sample_wrap_world ''garbage'' \<noteq> ''0000''
   \<and> download sample_wrap_world ''subprojects/packagecache''
         (sample_cached_fs ''0000'' ''garbage'') (sample_package ''0000'') ''zlib''
       = (sample_cached_fs ''0000'' ''garbage'', Inr ())
   \<and> snd (resolve_wrap sample_wrap_world ''subprojects'' (sample_cached_fs ''0000'' ''garbage'') ''zlib'')
       = Inr (Some ''zlib-1.2.8'')
   \<and> trace (fst (resolve_wrap sample_wrap_world ''subprojects''
                    (sample_cached_fs ''0000'' ''garbage'') ''zlib''))
       = [EvUnpack ''subprojects/packagecache/zlib.tar.gz'' (Some ''garbage'') ''subprojects'']"
proof -
  have ev: "resolve_wrap sample_wrap_world ''subprojects'' (sample_cached_fs ''0000'' ''garbage'') ''zlib''
      = (\<lparr>files = [''subprojects/zlib.wrap'' \<mapsto> sample_wrap_text ''0000'',
                   ''subprojects/packagecache/zlib.tar.gz'' \<mapsto> ''garbage''],
           dirs = {''subprojects/zlib-1.2.8'', ''subprojects'', ''subprojects/packagecache''},
           trace = [EvUnpack ''subprojects/packagecache/zlib.tar.gz'' (Some ''garbage'') ''subprojects'']\<rparr>,
         Inr (Some ''zlib-1.2.8''))"
    by (simp add: resolve_wrap_def sample_cached_fs_def sample_wrap_parses sample_package_def
        sample_wrap_world_def download_def extract_package_def unpack_archive_def pd_get_def
        has_patch_def path_exists_def isdir_def path_join_def Let_def)
  show ?thesis
    using ev sample_wrap_parses
      cached_archive_is_not_checked [where p = "sample_package ''0000''" and sfn = "''zlib.tar.gz''"
        and fs = "sample_cached_fs ''0000'' ''garbage''" and cachedir = "''subprojects/packagecache''"
        and W = sample_wrap_world and name = "''zlib''" and root = "''subprojects''"
        and contents = "sample_wrap_text ''0000''" and g = "get_data sample_wrap_world"
        and s = "get_hash sample_wrap_world"]
    by (simp add: sample_cached_fs_def sample_package_def path_join_def path_exists_def
        sample_wrap_world_def)
qed

section \<open>Targets registered by \<open>add_target\<close> alone\<close>

lemma build_target_keeps_ids:
  assumes "build_target W st args kw cls = (st', r)"
    and "\<forall>k t. targets (build st) k = Some t \<longrightarrow> get_id W t = k"
  shows "\<forall>k t. targets (build st') k = Some t \<longrightarrow> get_id W t = k"
proof (cases args)
  case Nil
  then show ?thesis using assms by (simp add: build_target_def)
next
  case (Cons name sources)
  show ?thesis
  proof (cases "BuildTarget_init W cls name (subdir st) (subproject st) sources kw")
    case (Inl e)
    then show ?thesis using assms Cons by (simp add: build_target_def)
  next
    case (Inr target)
    obtain s1 r1 where a: "add_target W st name target = (s1, r1)"
      by (cases "add_target W st name target")
    have k: "\<forall>k t. targets (build s1) k = Some t \<longrightarrow> get_id W t = k"
      using add_target_keeps_ids [OF a assms(2)] .
    have "targets (build st') = targets (build s1)"
      using assms(1) Cons Inr a by (cases r1) (auto simp add: build_target_def)
    then show ?thesis using k by simp
  qed
qed

lemma func_build_target_keeps_ids:
  assumes "func_build_target W st args kw = (st', r)"
    and "\<forall>k t. targets (build st) k = Some t \<longrightarrow> get_id W t = k"
  shows "\<forall>k t. targets (build st') k = Some t \<longrightarrow> get_id W t = k"
proof (cases "kw ''target_type''")
  case None
  then show ?thesis using assms by (simp add: func_build_target_def)
next
  case (Some v)
  have "st' = st \<or> (\<exists>cls kw'. build_target W st args kw' cls = (st', r))"
    using assms(1) Some by (auto simp add: func_build_target_def Let_def split: if_splits)
  then show ?thesis
    using assms(2) build_target_keeps_ids [OF _ assms(2)] by blast
qed

lemma func_custom_target_keeps_ids:
  assumes "func_custom_target W st args kw = (st', r)"
    and "\<forall>k t. targets (build st) k = Some t \<longrightarrow> get_id W t = k"
  shows "\<forall>k t. targets (build st') k = Some t \<longrightarrow> get_id W t = k"
proof -
  have "st' = st \<or> (\<exists>name tg q. add_target W st name tg = (st', q))"
    using assms(1)
    by (auto simp add: func_custom_target_def Let_def
        split: option.splits if_splits sum.splits prod.splits)
  then show ?thesis
    using assms(2) add_target_keeps_ids [OF _ assms(2)] by blast
qed

lemma func_run_target_keeps_ids:
  assumes "func_run_target W st args kw = (st', r)"
    and "\<forall>k t. targets (build st) k = Some t \<longrightarrow> get_id W t = k"
  shows "\<forall>k t. targets (build st') k = Some t \<longrightarrow> get_id W t = k"
proof -
  have "st' = st \<or> (\<exists>name tg q. add_target W st name tg = (st', q))"
    using assms(1)
    by (auto simp add: func_run_target_def Let_def
        split: option.splits if_splits sum.splits prod.splits)
  then show ?thesis
    using assms(2) add_target_keeps_ids [OF _ assms(2)] by blast
qed

lemma func_add_global_arguments_targets:
  "func_add_global_arguments st args kw = (st', r) \<Longrightarrow> targets (build st') = targets (build st)"
  by (auto simp add: func_add_global_arguments_def Let_def
      split: option.splits if_splits val.splits)

lemma func_configuration_data_targets:
  "func_configuration_data st args kw = (st', r) \<Longrightarrow> targets (build st') = targets (build st)"
  by (auto simp add: func_configuration_data_def split: option.splits if_splits)

lemma configure_tail_targets:
  "configure_tail st kw out = (st', r) \<Longrightarrow> targets (build st') = targets (build st)"
  by (auto simp add: configure_tail_def split: option.splits val.splits)

lemma func_configure_file_targets:
  "func_configure_file W st args kw = (st', r) \<Longrightarrow> targets (build st') = targets (build st)"
  by (auto simp add: func_configure_file_def Let_def
      split: option.splits if_splits sum.splits val.splits prod.splits
      dest!: configure_tail_targets)

lemma method_call_targets:
  "method_call st nm obj m args kw = (st', r) \<Longrightarrow> targets (build st') = targets (build st)"
  by (auto simp add: method_call_def split: option.splits val.splits prod.splits)

lemma exec_keeps_ids:
  assumes "exec W st s = (st', r)" and "registers_by_add_target s"
    and "\<forall>k t. targets (build st) k = Some t \<longrightarrow> get_id W t = k"
  shows "\<forall>k t. targets (build st') k = Some t \<longrightarrow> get_id W t = k"
proof (cases s)
  case (Call f args kw)
  show ?thesis
  proof (cases f)
    case F_executable
    then obtain q where "build_target W st args kw Executable = (st', q)"
      using assms(1) Call by (auto dest!: discard_fst)
    from build_target_keeps_ids [OF this assms(3)] show ?thesis .
  next
    case F_static_library
    then obtain q where "build_target W st args kw StaticLibrary = (st', q)"
      using assms(1) Call by (auto dest!: discard_fst)
    from build_target_keeps_ids [OF this assms(3)] show ?thesis .
  next
    case F_shared_library
    then obtain q where "build_target W st args kw SharedLibrary = (st', q)"
      using assms(1) Call by (auto dest!: discard_fst)
    from build_target_keeps_ids [OF this assms(3)] show ?thesis .
  next
    case F_jar
    then obtain q where "build_target W st args kw Jar = (st', q)"
      using assms(1) Call by (auto dest!: discard_fst)
    from build_target_keeps_ids [OF this assms(3)] show ?thesis .
  next
    case F_build_target
    then obtain q where "func_build_target W st args kw = (st', q)"
      using assms(1) Call by (auto dest!: discard_fst)
    from func_build_target_keeps_ids [OF this assms(3)] show ?thesis .
  next
    case F_custom_target
    then obtain q where "func_custom_target W st args kw = (st', q)"
      using assms(1) Call by (auto dest!: discard_fst)
    from func_custom_target_keeps_ids [OF this assms(3)] show ?thesis .
  next
    case F_run_target
    then obtain q where "func_run_target W st args kw = (st', q)"
      using assms(1) Call by (auto dest!: discard_fst)
    from func_run_target_keeps_ids [OF this assms(3)] show ?thesis .
  next
    case F_add_global_arguments
    then obtain q where "func_add_global_arguments st args kw = (st', q)"
      using assms(1) Call by (auto dest!: discard_fst)
    from func_add_global_arguments_targets [OF this] assms(3) show ?thesis by simp
  next
    case F_subproject
    then show ?thesis using assms(2) Call by simp
  next
    case F_configuration_data
    then obtain q where "func_configuration_data st args kw = (st', q)"
      using assms(1) Call by (auto dest!: discard_fst)
    from func_configuration_data_targets [OF this] assms(3) show ?thesis by simp
  next
    case F_configure_file
    then obtain q where "func_configure_file W st args kw = (st', q)"
      using assms(1) Call by (auto dest!: discard_fst)
    from func_configure_file_targets [OF this] assms(3) show ?thesis by simp
  qed
next
  case (MethodCall nm obj m args kw)
  then obtain q where "method_call st nm obj m args kw = (st', q)"
    using assms(1) by (auto dest!: discard_fst)
  from method_call_targets [OF this] assms(3) show ?thesis by simp
next
  case (ModuleCall v)
  then show ?thesis using assms(2) by simp
qed

lemma run_keeps_ids:
  "run W st ss = (st', r) \<Longrightarrow> \<forall>s \<in> set ss. registers_by_add_target s \<Longrightarrow>
   \<forall>k t. targets (build st) k = Some t \<longrightarrow> get_id W t = k \<Longrightarrow>
   \<forall>k t. targets (build st') k = Some t \<longrightarrow> get_id W t = k"
proof (induction ss arbitrary: st)
  case Nil
  then show ?case by simp
next
  case (Cons s ss)
  obtain s1 r1 where e: "exec W st s = (s1, r1)" by (cases "exec W st s")
  have k1: "\<forall>k t. targets (build s1) k = Some t \<longrightarrow> get_id W t = k"
    using exec_keeps_ids [OF e _ Cons.prems(3)] Cons.prems(2) by simp
  show ?case
  proof (cases r1)
    case (Inl x)
    then have "st' = s1" using Cons.prems(1) e by simp
    then show ?thesis using k1 by simp
  next
    case (Inr u)
    then have "run W s1 ss = (st', r)" using Cons.prems(1) e by simp
    from Cons.IH [OF this _ k1] Cons.prems(2) show ?thesis by simp
  qed
qed

text \<open>
  X1. \<open>add_target\<close> rejects a reserved name with \<open>InvalidArguments\<close> and an id that is
  already a key of \<open>targets\<close> with \<open>InvalidCode\<close>, leaving the state as it was. In
  every build that a new interpreter reaches by statements whose targets are all
  registered by \<open>add_target\<close> (no return of a module's method, no \<open>subproject\<close>), whether
  the script ended or raised, two different targets have different ids.
\<close>

theorem add_target_keeps_ids_unique:
  "(name \<in> forbidden_target_names W \<longrightarrow>
      (\<exists>msg. add_target W st (VStr name) tobj = (st, Inl (InvalidArguments msg))))
   \<and> (\<not> name_reserved (forbidden_target_names W) nm \<and> targets (build st) (get_id W tobj) = Some t \<longrightarrow>
      (\<exists>msg. add_target W st nm tobj = (st, Inl (InvalidCode msg))))
   \<and> (run W (new_interp d) ss = (st', r) \<and> (\<forall>s \<in> set ss. registers_by_add_target s)
      \<and> targets (build st') k1 = Some t1 \<and> targets (build st') k2 = Some t2 \<and> t1 \<noteq> t2 \<longrightarrow>
      get_id W t1 \<noteq> get_id W t2)"
proof (intro conjI impI)
  assume "name \<in> forbidden_target_names W"
  then show "\<exists>msg. add_target W st (VStr name) tobj = (st, Inl (InvalidArguments msg))"
    by (simp add: add_target_rejects_reserved)
next
  assume "\<not> name_reserved (forbidden_target_names W) nm \<and> targets (build st) (get_id W tobj) = Some t"
  then show "\<exists>msg. add_target W st nm tobj = (st, Inl (InvalidCode msg))"
    by (simp add: add_target_rejects_duplicate_id)
next
  assume a: "run W (new_interp d) ss = (st', r) \<and> (\<forall>s \<in> set ss. registers_by_add_target s)
      \<and> targets (build st') k1 = Some t1 \<and> targets (build st') k2 = Some t2 \<and> t1 \<noteq> t2"
  have i0: "\<forall>k t. targets (build (new_interp d)) k = Some t \<longrightarrow> get_id W t = k"
    by (simp add: new_interp_def new_build_def)
  have "\<forall>k t. targets (build st') k = Some t \<longrightarrow> get_id W t = k"
    using run_keeps_ids [OF _ _ i0] a by blast
  then show "get_id W t1 \<noteq> get_id W t2"
    using a by auto
qed

theorem add_target_keeps_ids_unique_witness:
  "add_target sample_world (new_interp ''subprojects'') (VStr ''clean'')
      \<lparr>t_name = ''clean'', t_type = RunTarget, t_subdir = [], t_subproject = [], t_rest = 0\<rparr>
    = (new_interp ''subprojects'',
       Inl (InvalidArguments (''Target name '' @ dq @ ''clean'' @ dq
              @ '' is reserved for Meson'' @ sq @ ''s internal use. Please rename.'')))
   \<and> snd (run sample_world (new_interp ''subprojects'')
         [Call F_executable [VStr ''prog'', VStr ''main.c''] Map.empty,
          Call F_executable [VStr ''prog'', VStr ''other.c'', VStr ''more.c''] Map.empty])
     = Inl (InvalidCode (''Tried to create target '' @ dq @ ''prog'' @ dq
              @ '', but a target of that name already exists.''))
   \<and> snd (run sample_world (new_interp ''subprojects'')
         [Call F_executable [VStr ''prog'', VStr ''main.c''] Map.empty,
          Call F_shared_library [VStr ''prog'', VStr ''lib.c''] Map.empty]) = Inr ()
   \<and> get_id sample_world
        \<lparr>t_name = ''prog'', t_type = Executable, t_subdir = [], t_subproject = [], t_rest = 1\<rparr>
     \<noteq> get_id sample_world
        \<lparr>t_name = ''prog'', t_type = SharedLibrary, t_subdir = [], t_subproject = [], t_rest = 1\<rparr>"
proof -
  have r: "run sample_world (new_interp ''subprojects'')
         [Call F_executable [VStr ''prog'', VStr ''main.c''] Map.empty,
          Call F_shared_library [VStr ''prog'', VStr ''lib.c''] Map.empty]
      = (fst (run sample_world (new_interp ''subprojects'')
         [Call F_executable [VStr ''prog'', VStr ''main.c''] Map.empty,
          Call F_shared_library [VStr ''prog'', VStr ''lib.c''] Map.empty]), Inr ())"
    by (simp add: eval_defs)
  have t1: "targets (build (fst (run sample_world (new_interp ''subprojects'')
         [Call F_executable [VStr ''prog'', VStr ''main.c''] Map.empty,
          Call F_shared_library [VStr ''prog'', VStr ''lib.c''] Map.empty]))) ''prog@exe''
      = Some \<lparr>t_name = ''prog'', t_type = Executable, t_subdir = [], t_subproject = [], t_rest = 1\<rparr>"
    by (simp add: eval_defs)
  have t2: "targets (build (fst (run sample_world (new_interp ''subprojects'')
         [Call F_executable [VStr ''prog'', VStr ''main.c''] Map.empty,
          Call F_shared_library [VStr ''prog'', VStr ''lib.c''] Map.empty]))) ''prog@sha''
      = Some \<lparr>t_name = ''prog'', t_type = SharedLibrary, t_subdir = [], t_subproject = [], t_rest = 1\<rparr>"
    by (simp add: eval_defs)
  have dup: "snd (run sample_world (new_interp ''subprojects'')
         [Call F_executable [VStr ''prog'', VStr ''main.c''] Map.empty,
          Call F_executable [VStr ''prog'', VStr ''other.c'', VStr ''more.c''] Map.empty])
     = Inl (InvalidCode (''Tried to create target '' @ dq @ ''prog'' @ dq
              @ '', but a target of that name already exists.''))"
    by (simp add: eval_defs)
  have res: "add_target sample_world (new_interp ''subprojects'') (VStr ''clean'')
      \<lparr>t_name = ''clean'', t_type = RunTarget, t_subdir = [], t_subproject = [], t_rest = 0\<rparr>
    = (new_interp ''subprojects'',
       Inl (InvalidArguments (''Target name '' @ dq @ ''clean'' @ dq
              @ '' is reserved for Meson'' @ sq @ ''s internal use. Please rename.'')))"
    by (simp add: add_target_def sample_world_def)
  have "get_id sample_world
        \<lparr>t_name = ''prog'', t_type = Executable, t_subdir = [], t_subproject = [], t_rest = 1\<rparr>
     \<noteq> get_id sample_world
        \<lparr>t_name = ''prog'', t_type = SharedLibrary, t_subdir = [], t_subproject = [], t_rest = 1\<rparr>"
    using r t1 t2
      add_target_keeps_ids_unique [where W = sample_world and d = "''subprojects''"
        and ss = "[Call F_executable [VStr ''prog'', VStr ''main.c''] Map.empty,
          Call F_shared_library [VStr ''prog'', VStr ''lib.c''] Map.empty]"
        and st' = "fst (run sample_world (new_interp ''subprojects'')
         [Call F_executable [VStr ''prog'', VStr ''main.c''] Map.empty,
          Call F_shared_library [VStr ''prog'', VStr ''lib.c''] Map.empty])"
        and r = "Inr ()" and ?k1.0 = "''prog@exe''" and ?k2.0 = "''prog@sha''"
        and ?t1.0 = "\<lparr>t_name = ''prog'', t_type = Executable, t_subdir = [], t_subproject = [], t_rest = 1\<rparr>"
        and ?t2.0 = "\<lparr>t_name = ''prog'', t_type = SharedLibrary, t_subdir = [], t_subproject = [], t_rest = 1\<rparr>"]
    by simp
  then show ?thesis using r dup res by (simp add: eval_defs)
qed
end
